theory Spec2Isabelle
  imports Complex_Main
begin

section \<open>Retraining a fixed architecture: the script \<open>NAS/retrain.py\<close>\<close>

text \<open>
  The script parses its command line, builds a model, an optimizer, a learning-rate
  schedule and two data loaders, and then runs \<open>retrain_epochs\<close> epochs; each epoch is
  one call of \<open>train\<close>, one call of \<open>validate\<close>, the update of \<open>best_top1\<close> with a
  possible \<open>torch.save\<close>, and one \<open>lr_scheduler.step()\<close>.

  Conventions of the embedding.
  \<^item> Python floats are read as real numbers: rounding is not modelled. The properties
    below compare accuracies and say which quantity is computed where.
  \<^item> Everything the script calls in the tensor library, in the search library and in its
    sibling modules is a field of the record \<open>framework\<close>, a parameter of every
    function here.
  \<^item> Mutable objects (model, optimizer, schedule, the result file, the log) are the
    fields of the record \<open>world\<close>, passed through every function. The field \<open>trace\<close>
    lists the calls with an effect, and the log lines, in the order they happen.
  \<^item> An exception is a value \<open>Inl e\<close>; the script catches none, so it ends the run.
\<close>

subsection \<open>Errors, configuration, events\<close>

datatype error = ZeroDivisionError | NameError | ArgumentError | TypeError | ValueError | LibraryError

datatype pyval = PyInt int | PyFloat real | PyStr string

text \<open>The namespace returned by \<open>parser.parse_args()\<close>; \<open>train\<close> and \<open>validate\<close> call it \<open>config\<close>.\<close>

record args =
  search_for :: string
  retrain_epochs :: int
  batch_size :: int
  workers :: pyval
  aux_weight :: real
  grad_clip :: real
  log_frequency :: int
  num_layers :: int
  nas_result :: string
  result_file :: string

text \<open>
  The log lines, with the values handed to the format string:
  \<open>EpochLR epoch cur_lr\<close>;
  \<open>TrainStep (epoch + 1) retrain_epochs step (len - 1) losses.avg top1.avg top5.avg\<close>
  and \<open>ValidStep\<close> alike; \<open>TrainFinal (epoch + 1) retrain_epochs top1.avg\<close> and
  \<open>ValidFinal\<close> alike; \<open>FinalBest best_top1\<close>.
\<close>

datatype log_line =
    EpochLR nat real
  | TrainStep nat int nat int real real real
  | TrainFinal nat int real
  | ValidStep nat int nat int real real real
  | ValidFinal nat int real
  | FinalBest real

datatype head = Primary | Aux

text \<open>
  \<open>Forward two grad\<close>: a call \<open>model(x)\<close>, unpacked into two outputs when \<open>two\<close> holds,
  with gradient tracking on when \<open>grad\<close> holds. \<open>Criterion h\<close>: a call of the loss
  function on the output of head \<open>h\<close>. \<open>Save f\<close>: \<open>torch.save(state_dict, f)\<close>.
\<close>

datatype event =
    ModelTrain
  | ModelEval
  | ZeroGrad
  | Forward bool bool
  | Criterion head
  | Backward
  | ClipGradNorm real
  | OptimizerStep
  | Info log_line
  | Save string
  | SchedulerStep

subsection \<open>The libraries and the mutable objects\<close>

datatype split = TrainSplit | ValidSplit

text \<open>The keyword arguments of \<open>torch.utils.data.DataLoader\<close> as the script gives them.\<close>

record loader =
  dataset :: split
  loader_batch_size :: int
  shuffle :: bool
  num_workers :: pyval
  pin_memory :: bool

text \<open>
  The mutable objects: the model's parameters and their gradients, the optimizer with
  its schedule, the model's mode (\<open>model.train()\<close>, \<open>model.eval()\<close>), whether
  gradients are tracked, the files written by \<open>torch.save\<close>, and the trace.
\<close>

record ('p, 'o) world =
  params :: 'p
  grads :: 'p
  opt :: 'o
  training :: bool
  grad_enabled :: bool
  files :: "string \<Rightarrow> 'p option"
  trace :: "event list"

text \<open>
  Gradients have the shape of the parameters, hence the type \<open>'p\<close> for both.
  \<^item> \<open>size0 x\<close> is \<open>x.size(0)\<close>.
  \<^item> \<open>forward1 training params x\<close> is \<open>model(x)\<close> bound to one name, \<open>forward2\<close> is
    \<open>model(x)\<close> unpacked into \<open>logits, aux_logits\<close>.
  \<^item> \<open>criterion logits y\<close> is the value of the cross-entropy loss.
  \<^item> \<open>accuracy logits y\<close> is \<open>(acc["acc1"], acc["acc5"])\<close> of \<open>utils.accuracy\<close>.
  \<^item> \<open>backward two aux training params x y grads\<close> is \<open>loss.backward()\<close>: the gradients
    after adding those of the loss, whose auxiliary term has weight \<open>aux\<close> if any.
  \<^item> \<open>opt_step opt grads params\<close> is \<open>optimizer.step()\<close>; \<open>lr opt\<close> is
    \<open>optimizer.param_groups[0]["lr"]\<close>; \<open>sched_step\<close> is \<open>lr_scheduler.step()\<close>, which
    writes the optimizer's learning rate.
  \<^item> \<open>batches ld k\<close> are the batches the loader \<open>ld\<close> yields when it is iterated for the
    \<open>k\<close>-th time (a shuffling loader yields another order each time).
  \<^item> \<open>build a\<close> is the world that lines 117 to 131 create from the arguments: datasets,
    model with the fixed architecture applied, loss, optimizer and schedule; or the
    exception that one of these lines raises.
\<close>

record ('x, 'y, 'l, 'p, 'o) framework =
  size0 :: "'x \<Rightarrow> nat"
  forward1 :: "bool \<Rightarrow> 'p \<Rightarrow> 'x \<Rightarrow> 'l"
  forward2 :: "bool \<Rightarrow> 'p \<Rightarrow> 'x \<Rightarrow> 'l \<times> 'l"
  criterion :: "'l \<Rightarrow> 'y \<Rightarrow> real"
  accuracy :: "'l \<Rightarrow> 'y \<Rightarrow> real \<times> real"
  zero_grad :: "'p \<Rightarrow> 'p"
  backward :: "bool \<Rightarrow> real option \<Rightarrow> bool \<Rightarrow> 'p \<Rightarrow> 'x \<Rightarrow> 'y \<Rightarrow> 'p \<Rightarrow> 'p"
  clip_grad_norm :: "real \<Rightarrow> 'p \<Rightarrow> 'p"
  opt_step :: "'o \<Rightarrow> 'p \<Rightarrow> 'p \<Rightarrow> 'o \<times> 'p"
  lr :: "'o \<Rightarrow> real"
  sched_step :: "'o \<Rightarrow> 'o"
  batches :: "loader \<Rightarrow> nat \<Rightarrow> ('x \<times> 'y) list"
  build :: "args \<Rightarrow> error + ('p, 'o) world"

definition emit :: "event \<Rightarrow> ('p, 'o) world \<Rightarrow> ('p, 'o) world" where
  "emit ev w = w\<lparr>trace := trace w @ [ev]\<rparr>"

subsection \<open>The metrics accumulator\<close>

text \<open>
  Modelled from the spec: the class \<open>AverageMeter\<close> of the search library is not part of
  the sources. The spec calls it a running average, reset per epoch and mutated per
  batch: \<open>update(val, n)\<close> adds \<open>val * n\<close> to the sum and \<open>n\<close> to the count and sets the
  average to their quotient, which Python refuses to compute for a count of zero.
\<close>

record meter =
  m_val :: real
  m_avg :: real
  m_sum :: real
  m_count :: nat

definition AverageMeter :: meter where
  "AverageMeter = \<lparr>m_val = 0, m_avg = 0, m_sum = 0, m_count = 0\<rparr>"

definition meter_update :: "meter \<Rightarrow> real \<Rightarrow> nat \<Rightarrow> error + meter" where
  "meter_update m v n =
     (let s = m_sum m + v * real n; c = m_count m + n
      in if c = 0 then Inl ZeroDivisionError
         else Inr \<lparr>m_val = v, m_avg = s / real c, m_sum = s, m_count = c\<rparr>)"

text \<open>The three meters of a pass, in the order the source creates them: top1, top5, losses.\<close>

type_synonym meters = "meter \<times> meter \<times> meter"

definition update_meters :: "meters \<Rightarrow> real \<Rightarrow> real \<times> real \<Rightarrow> nat \<Rightarrow> error + meters" where
  "update_meters ms loss acc bs =
     (case ms of (top1, top5, losses) \<Rightarrow>
        (case meter_update losses loss bs of Inl e \<Rightarrow> Inl e | Inr losses' \<Rightarrow>
        (case meter_update top1 (fst acc) bs of Inl e \<Rightarrow> Inl e | Inr top1' \<Rightarrow>
        (case meter_update top5 (snd acc) bs of Inl e \<Rightarrow> Inl e | Inr top5' \<Rightarrow>
           Inr (top1', top5', losses')))))"

text \<open>
  The test \<open>step % config.log_frequency == 0 or step == len(loader) - 1\<close>: the left
  operand is evaluated first and raises for a frequency of zero. Python's \<open>%\<close> on
  integers takes the sign of the divisor, as \<open>mod\<close> on \<open>int\<close> does.
\<close>

definition log_due :: "int \<Rightarrow> nat \<Rightarrow> nat \<Rightarrow> error + bool" where
  "log_due freq step len =
     (if freq = 0 then Inl ZeroDivisionError
      else Inr (int step mod freq = 0 \<or> int step = int len - 1))"

subsection \<open>The training pass\<close>

text \<open>
  Lines 42 to 53, for one batch: the result is the logits, the loss and the new world.
  \<open>aux_logits\<close> is bound in the micro branch only; reading it unbound would be a
  \<open>NameError\<close>.
\<close>

definition train_step ::
  "('x, 'y, 'l, 'p, 'o) framework \<Rightarrow> args \<Rightarrow> string \<Rightarrow> 'x \<Rightarrow> 'y \<Rightarrow> ('p, 'o) world
     \<Rightarrow> error + ('l \<times> real \<times> ('p, 'o) world)" where
  "train_step fw config sf x y w =
     (let w1 = emit ZeroGrad (w\<lparr>grads := zero_grad fw (grads w)\<rparr>);
          out = (if sf = ''micro''
                 then (case forward2 fw (training w1) (params w1) x of (l, a) \<Rightarrow> (l, Some a))
                 else (forward1 fw (training w1) (params w1) x, None));
          logits = fst out;
          aux_logits = snd out;
          w2 = emit (Forward (sf = ''micro'') (grad_enabled w1)) w1;
          loss = criterion fw logits y;
          w3 = emit (Criterion Primary) w2
      in case (if aux_weight config > 0 \<and> sf = ''micro''
               then (case aux_logits of
                       None \<Rightarrow> Inl NameError
                     | Some a \<Rightarrow>
                         Inr (loss + aux_weight config * criterion fw a y,
                              Some (aux_weight config), emit (Criterion Aux) w3))
               else Inr (loss, None, w3)) of
           Inl e \<Rightarrow> Inl e
         | Inr (loss', aux, w4) \<Rightarrow>
             (let w5 = emit Backward
                    (w4\<lparr>grads := backward fw (sf = ''micro'') aux (training w4) (params w4) x y (grads w4)\<rparr>);
                  w6 = emit (ClipGradNorm (grad_clip config))
                    (w5\<lparr>grads := clip_grad_norm fw (grad_clip config) (grads w5)\<rparr>);
                  st = opt_step fw (opt w6) (grads w6) (params w6);
                  w7 = emit OptimizerStep (w6\<lparr>opt := fst st, params := snd st\<rparr>)
              in Inr (logits, loss', w7)))"

text \<open>One iteration of the loop of \<open>train\<close> (lines 38 to 67) on the batch numbered \<open>step\<close>.\<close>

definition train_batch ::
  "('x, 'y, 'l, 'p, 'o) framework \<Rightarrow> args \<Rightarrow> nat \<Rightarrow> string \<Rightarrow> nat \<Rightarrow> nat \<times> 'x \<times> 'y
     \<Rightarrow> meters \<times> ('p, 'o) world \<Rightarrow> error + (meters \<times> ('p, 'o) world)" where
  "train_batch fw config epoch sf len b st =
     (case b of (step, x, y) \<Rightarrow> (case st of (ms, w) \<Rightarrow>
        (let bs = size0 fw x
         in case train_step fw config sf x y w of Inl e \<Rightarrow> Inl e | Inr (logits, loss, w') \<Rightarrow>
           (let acc = accuracy fw logits y
            in case update_meters ms loss acc bs of Inl e \<Rightarrow> Inl e | Inr ms' \<Rightarrow>
              (case log_due (log_frequency config) step len of Inl e \<Rightarrow> Inl e | Inr due \<Rightarrow>
                 Inr (ms',
                      if due
                      then emit (Info (TrainStep (epoch + 1) (retrain_epochs config) step (int len - 1)
                                   (m_avg (snd (snd ms'))) (m_avg (fst ms')) (m_avg (fst (snd ms'))))) w'
                      else w'))))))"

fun train_loop ::
  "('x, 'y, 'l, 'p, 'o) framework \<Rightarrow> args \<Rightarrow> nat \<Rightarrow> string \<Rightarrow> nat \<Rightarrow> (nat \<times> 'x \<times> 'y) list
     \<Rightarrow> meters \<times> ('p, 'o) world \<Rightarrow> error + (meters \<times> ('p, 'o) world)" where
  "train_loop fw config epoch sf len [] st = Inr st"
| "train_loop fw config epoch sf len (b # rest) st =
     (case train_batch fw config epoch sf len b st of
        Inl e \<Rightarrow> Inl e
      | Inr st' \<Rightarrow> train_loop fw config epoch sf len rest st')"

text \<open>
  \<open>train(config, train_loader, model, optimizer, criterion, epoch, search_for)\<close>; the
  loader is given as the batches it yields in this pass. The local \<open>cur_step\<close> is
  written and never read, and left out.
\<close>

definition train ::
  "('x, 'y, 'l, 'p, 'o) framework \<Rightarrow> args \<Rightarrow> ('x \<times> 'y) list \<Rightarrow> nat \<Rightarrow> string
     \<Rightarrow> ('p, 'o) world \<Rightarrow> error + ('p, 'o) world" where
  "train fw config train_loader epoch sf w =
     (let cur_lr = lr fw (opt w);
          w1 = emit (Info (EpochLR epoch cur_lr)) w;
          w2 = emit ModelTrain (w1\<lparr>training := True\<rparr>)
      in case train_loop fw config epoch sf (length train_loader) (enumerate 0 train_loader)
                ((AverageMeter, AverageMeter, AverageMeter), w2) of
           Inl e \<Rightarrow> Inl e
         | Inr (ms, w3) \<Rightarrow>
             Inr (emit (Info (TrainFinal (epoch + 1) (retrain_epochs config) (m_avg (fst ms)))) w3))"

subsection \<open>The validation pass\<close>

text \<open>One iteration of the loop of \<open>validate\<close> (lines 80 to 97).\<close>

definition validate_batch ::
  "('x, 'y, 'l, 'p, 'o) framework \<Rightarrow> args \<Rightarrow> nat \<Rightarrow> nat \<Rightarrow> nat \<times> 'x \<times> 'y
     \<Rightarrow> meters \<times> ('p, 'o) world \<Rightarrow> error + (meters \<times> ('p, 'o) world)" where
  "validate_batch fw config epoch len b st =
     (case b of (step, X, y) \<Rightarrow> (case st of (ms, w) \<Rightarrow>
        (let bs = size0 fw X;
             logits = forward1 fw (training w) (params w) X;
             w1 = emit (Forward False (grad_enabled w)) w;
             loss = criterion fw logits y;
             w2 = emit (Criterion Primary) w1;
             acc = accuracy fw logits y
         in case update_meters ms loss acc bs of Inl e \<Rightarrow> Inl e | Inr ms' \<Rightarrow>
           (case log_due (log_frequency config) step len of Inl e \<Rightarrow> Inl e | Inr due \<Rightarrow>
              Inr (ms',
                   if due
                   then emit (Info (ValidStep (epoch + 1) (retrain_epochs config) step (int len - 1)
                                (m_avg (snd (snd ms'))) (m_avg (fst ms')) (m_avg (fst (snd ms'))))) w2
                   else w2)))))"

fun validate_loop ::
  "('x, 'y, 'l, 'p, 'o) framework \<Rightarrow> args \<Rightarrow> nat \<Rightarrow> nat \<Rightarrow> (nat \<times> 'x \<times> 'y) list
     \<Rightarrow> meters \<times> ('p, 'o) world \<Rightarrow> error + (meters \<times> ('p, 'o) world)" where
  "validate_loop fw config epoch len [] st = Inr st"
| "validate_loop fw config epoch len (b # rest) st =
     (case validate_batch fw config epoch len b st of
        Inl e \<Rightarrow> Inl e
      | Inr st' \<Rightarrow> validate_loop fw config epoch len rest st')"

text \<open>
  \<open>validate(config, valid_loader, model, criterion, epoch, cur_step)\<close>. The block
  \<open>with torch.no_grad()\<close> switches gradient tracking off and restores it on exit. The
  argument \<open>cur_step\<close> is not read.
\<close>

definition validate ::
  "('x, 'y, 'l, 'p, 'o) framework \<Rightarrow> args \<Rightarrow> ('x \<times> 'y) list \<Rightarrow> nat \<Rightarrow> nat
     \<Rightarrow> ('p, 'o) world \<Rightarrow> error + (real \<times> ('p, 'o) world)" where
  "validate fw config valid_loader epoch cur_step w =
     (let w1 = emit ModelEval (w\<lparr>training := False\<rparr>);
          w2 = w1\<lparr>grad_enabled := False\<rparr>
      in case validate_loop fw config epoch (length valid_loader) (enumerate 0 valid_loader)
                ((AverageMeter, AverageMeter, AverageMeter), w2) of
           Inl e \<Rightarrow> Inl e
         | Inr (ms, w3) \<Rightarrow>
             (let w4 = w3\<lparr>grad_enabled := grad_enabled w1\<rparr>;
                  w5 = emit (Info (ValidFinal (epoch + 1) (retrain_epochs config) (m_avg (fst ms)))) w4
              in Inr (m_avg (fst ms), w5)))"

subsection \<open>The driver\<close>

text \<open>
  Lines 141 to 144: \<open>best_top1 = max(best_top1, top1)\<close>, then the test
  \<open>top1 == best_top1\<close> against the new value, and the write of the model's state.
\<close>

definition checkpoint ::
  "args \<Rightarrow> real \<Rightarrow> real \<Rightarrow> ('p, 'o) world \<Rightarrow> real \<times> ('p, 'o) world" where
  "checkpoint a best_top1 top1 w =
     (let best_top1' = max best_top1 top1
      in (best_top1',
          if top1 = best_top1'
          then emit (Save (result_file a)) (w\<lparr>files := (files w)(result_file a \<mapsto> params w)\<rparr>)
          else w))"

text \<open>The body of the epoch loop (lines 138 to 145); the loop carries \<open>best_top1\<close>.\<close>

definition epoch_body ::
  "('x, 'y, 'l, 'p, 'o) framework \<Rightarrow> args \<Rightarrow> loader \<Rightarrow> loader \<Rightarrow> nat
     \<Rightarrow> real \<times> ('p, 'o) world \<Rightarrow> error + (real \<times> ('p, 'o) world)" where
  "epoch_body fw a train_loader valid_loader epoch st =
     (case st of (best_top1, w) \<Rightarrow>
        (case train fw a (batches fw train_loader epoch) epoch (search_for a) w of
           Inl e \<Rightarrow> Inl e
         | Inr w1 \<Rightarrow>
             (let cur_step = (epoch + 1) * length (batches fw train_loader epoch)
              in case validate fw a (batches fw valid_loader epoch) epoch cur_step w1 of
                   Inl e \<Rightarrow> Inl e
                 | Inr (top1, w2) \<Rightarrow>
                     (case checkpoint a best_top1 top1 w2 of (best_top1', w3) \<Rightarrow>
                        Inr (best_top1', emit SchedulerStep (w3\<lparr>opt := sched_step fw (opt w3)\<rparr>))))))"

fun epochs ::
  "('x, 'y, 'l, 'p, 'o) framework \<Rightarrow> args \<Rightarrow> loader \<Rightarrow> loader \<Rightarrow> nat list
     \<Rightarrow> real \<times> ('p, 'o) world \<Rightarrow> error + (real \<times> ('p, 'o) world)" where
  "epochs fw a train_loader valid_loader [] st = Inr st"
| "epochs fw a train_loader valid_loader (epoch # rest) st =
     (case epoch_body fw a train_loader valid_loader epoch st of
        Inl e \<Rightarrow> Inl e
      | Inr st' \<Rightarrow> epochs fw a train_loader valid_loader rest st')"

text \<open>The two loaders of lines 132 and 133.\<close>

definition train_loader_of :: "args \<Rightarrow> loader" where
  "train_loader_of a =
     \<lparr>dataset = TrainSplit, loader_batch_size = batch_size a, shuffle = True,
      num_workers = workers a, pin_memory = True\<rparr>"

definition valid_loader_of :: "args \<Rightarrow> loader" where
  "valid_loader_of a =
     \<lparr>dataset = ValidSplit, loader_batch_size = batch_size a, shuffle = False,
      num_workers = workers a, pin_memory = True\<rparr>"

text \<open>
  Lines 136 to 147 from the world \<open>w\<close> that lines 117 to 131 have built:
  \<open>range(args.retrain_epochs)\<close> is empty for a count that is not positive.
\<close>

definition retrain ::
  "('x, 'y, 'l, 'p, 'o) framework \<Rightarrow> args \<Rightarrow> ('p, 'o) world \<Rightarrow> error + (real \<times> ('p, 'o) world)" where
  "retrain fw a w =
     (case epochs fw a (train_loader_of a) (valid_loader_of a) [0..<nat (retrain_epochs a)] (0, w) of
        Inl e \<Rightarrow> Inl e
      | Inr (best_top1, w') \<Rightarrow> Inr (best_top1, emit (Info (FinalBest best_top1)) w'))"

subsection \<open>The command line\<close>

text \<open>
  \<open>argparse\<close> as the script uses it. \<open>given flag\<close> is the string that follows \<open>flag\<close>
  on the command line, if the flag is there. An argument declared with \<open>type=int\<close> or
  \<open>type=float\<close> has its string converted (\<open>int_of\<close>, \<open>float_of\<close>: Python's \<open>int\<close> and
  \<open>float\<close> on strings, \<open>None\<close> where they raise); one declared with \<open>choices\<close> is
  checked against them; one declared with a default only keeps the string. A default
  that is not a string is used as it is.
\<close>

definition int_argument ::
  "(string \<Rightarrow> int option) \<Rightarrow> (string \<rightharpoonup> string) \<Rightarrow> string \<Rightarrow> int \<Rightarrow> error + int" where
  "int_argument int_of given flag d =
     (case given flag of
        None \<Rightarrow> Inr d
      | Some s \<Rightarrow> (case int_of s of None \<Rightarrow> Inl ArgumentError | Some i \<Rightarrow> Inr i))"

definition float_argument ::
  "(string \<Rightarrow> real option) \<Rightarrow> (string \<rightharpoonup> string) \<Rightarrow> string \<Rightarrow> real \<Rightarrow> error + real" where
  "float_argument float_of given flag d =
     (case given flag of
        None \<Rightarrow> Inr d
      | Some s \<Rightarrow> (case float_of s of None \<Rightarrow> Inl ArgumentError | Some r \<Rightarrow> Inr r))"

definition choice_argument ::
  "(string \<rightharpoonup> string) \<Rightarrow> string \<Rightarrow> string list \<Rightarrow> string \<Rightarrow> error + string" where
  "choice_argument given flag choices d =
     (case given flag of
        None \<Rightarrow> Inr d
      | Some s \<Rightarrow> (if s \<in> set choices then Inr s else Inl ArgumentError))"

definition plain_argument :: "(string \<rightharpoonup> string) \<Rightarrow> string \<Rightarrow> pyval \<Rightarrow> pyval" where
  "plain_argument given flag d = (case given flag of None \<Rightarrow> d | Some s \<Rightarrow> PyStr s)"

text \<open>Lines 104 to 115; \<open>positional\<close> are the arguments that follow no flag.\<close>

definition parse_args ::
  "(string \<Rightarrow> int option) \<Rightarrow> (string \<Rightarrow> real option) \<Rightarrow> (string \<rightharpoonup> string) \<Rightarrow> string list
     \<Rightarrow> error + args" where
  "parse_args int_of float_of given positional =
     (case choice_argument given ''--search-for'' [''macro'', ''micro''] ''macro'' of
        Inl e \<Rightarrow> Inl e | Inr sf \<Rightarrow>
     (case int_argument int_of given ''--retrain-epochs'' 600 of Inl e \<Rightarrow> Inl e | Inr re \<Rightarrow>
     (case int_argument int_of given ''--batch-size'' 128 of Inl e \<Rightarrow> Inl e | Inr bs \<Rightarrow>
     (let wk = plain_argument given ''--workers'' (PyInt 4)
      in case float_argument float_of given ''--aux-weight'' (4 / 10) of Inl e \<Rightarrow> Inl e | Inr aw \<Rightarrow>
     (case float_argument float_of given ''--grad-clip'' 5 of Inl e \<Rightarrow> Inl e | Inr gc \<Rightarrow>
     (case int_argument int_of given ''--log-frequency'' 10 of Inl e \<Rightarrow> Inl e | Inr lf \<Rightarrow>
     (case int_argument int_of given ''--num-layers'' 6 of Inl e \<Rightarrow> Inl e | Inr nl \<Rightarrow>
     (case positional of
        [nr, rf] \<Rightarrow>
          Inr \<lparr>search_for = sf, retrain_epochs = re, batch_size = bs, workers = wk,
               aux_weight = aw, grad_clip = gc, log_frequency = lf, num_layers = nl,
               nas_result = nr, result_file = rf\<rparr>
      | _ \<Rightarrow> Inl ArgumentError))))))))"

text \<open>
  The constructor \<open>torch.utils.data.DataLoader(...)\<close>, as far as \<open>num_workers\<close> goes: it
  tests \<open>num_workers < 0\<close> and raises \<open>ValueError\<close> for a negative count; Python does not
  order a string and an integer, so for a string the test itself raises \<open>TypeError\<close>.
  A loader that is built is its keyword arguments.
\<close>

definition DataLoader :: "loader \<Rightarrow> error + loader" where
  "DataLoader kw =
     (case num_workers kw of
        PyInt n \<Rightarrow> (if n < 0 then Inl ValueError else Inr kw)
      | PyFloat r \<Rightarrow> (if r < 0 then Inl ValueError else Inr kw)
      | PyStr s \<Rightarrow> Inl TypeError)"

text \<open>
  The script as a whole: the command line (lines 104 to 115), the objects of lines 117
  to 131, the training loader (line 132), the validation loader (line 133), and the
  epoch loop, which iterates the two loaders just built.
\<close>

definition main ::
  "('x, 'y, 'l, 'p, 'o) framework \<Rightarrow> (string \<Rightarrow> int option) \<Rightarrow> (string \<Rightarrow> real option)
     \<Rightarrow> (string \<rightharpoonup> string) \<Rightarrow> string list \<Rightarrow> error + (real \<times> ('p, 'o) world)" where
  "main fw int_of float_of given positional =
     (case parse_args int_of float_of given positional of
        Inl e \<Rightarrow> Inl e
      | Inr a \<Rightarrow>
          (case build fw a of
             Inl e \<Rightarrow> Inl e
           | Inr w \<Rightarrow>
               (case DataLoader (train_loader_of a) of
                  Inl e \<Rightarrow> Inl e
                | Inr train_loader \<Rightarrow>
                    (case DataLoader (valid_loader_of a) of
                       Inl e \<Rightarrow> Inl e
                     | Inr valid_loader \<Rightarrow> retrain fw a w))))"

subsection \<open>Reading a trace\<close>

text \<open>The events between two worlds of one run.\<close>

definition since :: "('p, 'o) world \<Rightarrow> ('p, 'o) world \<Rightarrow> event list" where
  "since w w' = drop (length (trace w)) (trace w')"

fun is_info :: "event \<Rightarrow> bool" where
  "is_info (Info l) = True"
| "is_info ev = False"

text \<open>The files written, in order.\<close>

fun saved :: "event \<Rightarrow> string list" where
  "saved (Save f) = [f]"
| "saved ev = []"

definition saves :: "event list \<Rightarrow> string list" where
  "saves evs = concat (map saved evs)"

text \<open>The accuracies that \<open>validate\<close> logged in its last line and returned, in order.\<close>

fun valid_acc :: "event \<Rightarrow> real list" where
  "valid_acc (Info (ValidFinal n k a)) = [a]"
| "valid_acc ev = []"

definition valid_accs :: "event list \<Rightarrow> real list" where
  "valid_accs evs = concat (map valid_acc evs)"

text \<open>
  The driver's view of a trace. A training pass begins with the line \<open>EpochLR epoch\<close>
  and ends with the line \<open>TrainFinal (epoch + 1)\<close>; a validation pass begins with
  \<open>model.eval()\<close> and ends with the line \<open>ValidFinal (epoch + 1)\<close>. \<open>TrainEnd\<close> and
  \<open>ValidEnd\<close> carry the number as logged, one more than the epoch.
\<close>

datatype phase = TrainBegin nat | TrainEnd nat | ValidBegin | ValidEnd nat | Checkpoint | ScheduleStep

fun phase_of :: "event \<Rightarrow> phase list" where
  "phase_of (Info (EpochLR e r)) = [TrainBegin e]"
| "phase_of (Info (TrainFinal n k a)) = [TrainEnd n]"
| "phase_of ModelEval = [ValidBegin]"
| "phase_of (Info (ValidFinal n k a)) = [ValidEnd n]"
| "phase_of (Save f) = [Checkpoint]"
| "phase_of SchedulerStep = [ScheduleStep]"
| "phase_of ev = []"

definition phases :: "event list \<Rightarrow> phase list" where
  "phases evs = concat (map phase_of evs)"

text \<open>The phases of one epoch; \<open>c\<close> tells whether the model was saved.\<close>

abbreviation epoch_phases :: "nat \<Rightarrow> bool \<Rightarrow> phase list" where
  "epoch_phases e c \<equiv>
     [TrainBegin e, TrainEnd (e + 1), ValidBegin, ValidEnd (e + 1)]
     @ (if c then [Checkpoint] else []) @ [ScheduleStep]"

text \<open>The events of the batch loops, and those among them that \<open>validate\<close> produces.\<close>

fun batch_level :: "event \<Rightarrow> bool" where
  "batch_level ZeroGrad = True"
| "batch_level (Forward two g) = True"
| "batch_level (Criterion h) = True"
| "batch_level Backward = True"
| "batch_level (ClipGradNorm c) = True"
| "batch_level OptimizerStep = True"
| "batch_level (Info (TrainStep n k s l a b c)) = True"
| "batch_level (Info (ValidStep n k s l a b c)) = True"
| "batch_level ev = False"

fun eval_event :: "event \<Rightarrow> bool" where
  "eval_event (Forward two g) = (\<not> two \<and> \<not> g)"
| "eval_event (Criterion h) = (h = Primary)"
| "eval_event (Info (ValidStep n k s l a b c)) = True"
| "eval_event ev = False"

text \<open>The calls of one training batch, lines 42 to 53, in order.\<close>

abbreviation step_calls :: "args \<Rightarrow> string \<Rightarrow> bool \<Rightarrow> event list" where
  "step_calls config sf g \<equiv>
     [ZeroGrad, Forward (sf = ''micro'') g, Criterion Primary]
     @ (if 0 < aux_weight config \<and> sf = ''micro'' then [Criterion Aux] else [])
     @ [Backward, ClipGradNorm (grad_clip config), OptimizerStep]"

text \<open>
  Following the spec's words (section 4.1) for what one training batch does to the
  model and the optimizer: zero the gradients, backpropagate the loss of the batch
  (with the auxiliary term when it applies), clip the gradient norm at the threshold,
  apply the optimizer step with the clipped gradients. The state is the triple of
  parameters, gradients and optimizer; \<open>t\<close> is the model's mode.
\<close>

definition spec_batch_update ::
  "('x, 'y, 'l, 'p, 'o) framework \<Rightarrow> args \<Rightarrow> string \<Rightarrow> bool \<Rightarrow> 'x \<times> 'y
     \<Rightarrow> 'p \<times> 'p \<times> 'o \<Rightarrow> 'p \<times> 'p \<times> 'o" where
  "spec_batch_update fw config sf t b s =
     (case s of (p, g, ost) \<Rightarrow>
        (let zeroed = zero_grad fw g;
             backpropagated =
               backward fw (sf = ''micro'')
                 (if 0 < aux_weight config \<and> sf = ''micro'' then Some (aux_weight config) else None)
                 t p (fst b) (snd b) zeroed;
             clipped_grads = clip_grad_norm fw (grad_clip config) backpropagated;
             stepped = opt_step fw ost clipped_grads p
         in (snd stepped, clipped_grads, fst stepped)))"

text \<open>The top-1 accuracy of one batch under the single-output forward pass.\<close>

abbreviation acc1 :: "('x, 'y, 'l, 'p, 'o) framework \<Rightarrow> bool \<Rightarrow> 'p \<Rightarrow> 'x \<times> 'y \<Rightarrow> real" where
  "acc1 fw t p b \<equiv> fst (accuracy fw (forward1 fw t p (fst b)) (snd b))"

text \<open>Every optimizer step comes right after a clipping of the gradient norm at \<open>c\<close>.\<close>

definition clipped :: "real \<Rightarrow> event list \<Rightarrow> bool" where
  "clipped c evs \<longleftrightarrow>
     (\<forall>i < length evs. evs ! i = OptimizerStep \<longrightarrow> 0 < i \<and> evs ! (i - 1) = ClipGradNorm c)"

subsection \<open>A small run\<close>

text \<open>
  Inputs and labels are lists of numbers, the model predicts its input, the loss counts
  the wrong predictions, a parameter is one integer. A backward pass adds seven to the
  gradient, clipping cuts it down to the threshold, a step subtracts it from the
  parameter. The training loader yields one
  batch of two samples; the validation loader yields one batch of two samples of which
  one is predicted right, so that every epoch validates at one half.
\<close>

definition ex_world :: "(int, nat) world" where
  "ex_world = \<lparr>params = 0, grads = 0, opt = 0, training = False, grad_enabled = True,
     files = (\<lambda>f. None), trace = []\<rparr>"

definition ex_fw :: "(nat list, nat list, nat list, int, nat) framework" where
  "ex_fw = \<lparr>size0 = length,
     forward1 = (\<lambda>t p x. x),
     forward2 = (\<lambda>t p x. (x, x)),
     criterion = (\<lambda>l y. real (length (filter (\<lambda>(u, v). u \<noteq> v) (zip l y)))),
     accuracy = (\<lambda>l y. (real (length (filter (\<lambda>(u, v). u = v) (zip l y))) / real (length y), 1)),
     zero_grad = (\<lambda>g. 0),
     backward = (\<lambda>two aux t p x y g. g + 7),
     clip_grad_norm = (\<lambda>c g. min g \<lfloor>c\<rfloor>),
     opt_step = (\<lambda>ost g p. (ost + 1, p - g)),
     lr = (\<lambda>ost. 1 / 20),
     sched_step = (\<lambda>ost. ost + 100),
     batches = (\<lambda>ld k. case dataset ld of
                  TrainSplit \<Rightarrow> [([1, 2], [1, 2])]
                | ValidSplit \<Rightarrow> [([1, 2], [1, 3])]),
     build = (\<lambda>a. Inr ex_world)\<rparr>"

definition ex_args :: args where
  "ex_args = \<lparr>search_for = ''micro'', retrain_epochs = 2, batch_size = 2, workers = PyInt 4,
     aux_weight = 2 / 5, grad_clip = 5, log_frequency = 10, num_layers = 6,
     nas_result = ''arch.json'', result_file = ''weights.pt''\<rparr>"

text \<open>The same with every validation prediction wrong: every epoch validates at zero.\<close>

definition ex_fw_zero :: "(nat list, nat list, nat list, int, nat) framework" where
  "ex_fw_zero = ex_fw\<lparr>batches := (\<lambda>ld k. case dataset ld of
                  TrainSplit \<Rightarrow> [([1, 2], [1, 2])]
                | ValidSplit \<Rightarrow> [([1, 2], [3, 4])])\<rparr>"

text \<open>
  The namespace for the command line \<open>--workers 8 arch.json weights.pt\<close>: every
  default, and the string for \<open>workers\<close>.
\<close>

definition ex_parsed :: args where
  "ex_parsed = \<lparr>search_for = ''macro'', retrain_epochs = 600, batch_size = 128, workers = PyStr ''8'',
     aux_weight = 4 / 10, grad_clip = 5, log_frequency = 10, num_layers = 6,
     nas_result = ''arch.json'', result_file = ''weights.pt''\<rparr>"

text \<open>Converters that know the strings of the examples only.\<close>

definition ex_int :: "string \<Rightarrow> int option" where
  "ex_int s = (if s = ''64'' then Some 64 else if s = ''8'' then Some 8 else None)"

definition ex_float :: "string \<Rightarrow> real option" where
  "ex_float s = (if s = ''0.4'' then Some (4 / 10) else None)"

text \<open>What a run leaves: the best accuracy, the validation accuracies, and the files written.\<close>

definition outcome ::
  "('p, 'o) world \<Rightarrow> error + (real \<times> ('p, 'o) world) \<Rightarrow> error + (real \<times> real list \<times> string list)" where
  "outcome w0 r =
     (case r of
        Inl e \<Rightarrow> Inl e
      | Inr (best, w) \<Rightarrow> Inr (best, valid_accs (since w0 w), saves (since w0 w)))"

section \<open>Properties\<close>

subsection \<open>Traces\<close>

lemma since_eq: "trace w' = trace w @ evs \<Longrightarrow> since w w' = evs"
  by (simp add: since_def)

lemma saves_append [simp]: "saves (xs @ ys) = saves xs @ saves ys"
  by (simp add: saves_def)

lemma valid_accs_append [simp]: "valid_accs (xs @ ys) = valid_accs xs @ valid_accs ys"
  by (simp add: valid_accs_def)

lemma phases_append [simp]: "phases (xs @ ys) = phases xs @ phases ys"
  by (simp add: phases_def)

lemma saves_Nil [simp]: "saves [] = []"
  by (simp add: saves_def)

lemma saves_Cons [simp]: "saves (ev # evs) = saved ev @ saves evs"
  by (simp add: saves_def)

lemma valid_accs_Nil [simp]: "valid_accs [] = []"
  by (simp add: valid_accs_def)

lemma valid_accs_Cons [simp]: "valid_accs (ev # evs) = valid_acc ev @ valid_accs evs"
  by (simp add: valid_accs_def)

lemma phases_Nil [simp]: "phases [] = []"
  by (simp add: phases_def)

lemma phases_Cons [simp]: "phases (ev # evs) = phase_of ev @ phases evs"
  by (simp add: phases_def)

lemma batch_level_silent:
  assumes "batch_level ev"
  shows "saved ev = []" and "valid_acc ev = []" and "phase_of ev = []"
  using assms by (cases ev rule: batch_level.cases; simp)+

lemma batch_level_list_silent:
  assumes "\<forall>ev \<in> set evs. batch_level ev"
  shows "saves evs = [] \<and> valid_accs evs = [] \<and> phases evs = []"
  using assms by (induction evs) (simp_all add: batch_level_silent)

lemma eval_event_batch_level: "eval_event ev \<Longrightarrow> batch_level ev"
  by (cases ev rule: eval_event.cases) auto

lemma info_batch_level_not_step: "is_info ev \<Longrightarrow> ev \<noteq> OptimizerStep"
  by auto

lemma clipped_append:
  assumes "clipped c xs" and "clipped c ys"
  shows "clipped c (xs @ ys)"
  unfolding clipped_def
proof (intro allI impI)
  fix i
  assume i: "i < length (xs @ ys)" and st: "(xs @ ys) ! i = OptimizerStep"
  show "0 < i \<and> (xs @ ys) ! (i - 1) = ClipGradNorm c"
  proof (cases "i < length xs")
    case True
    with st assms(1) have "0 < i \<and> xs ! (i - 1) = ClipGradNorm c"
      by (simp add: clipped_def nth_append)
    moreover from True have "i - 1 < length xs" by simp
    ultimately show ?thesis by (simp add: nth_append)
  next
    case False
    define j where "j = i - length xs"
    from False i st have "j < length ys" "ys ! j = OptimizerStep"
      by (simp_all add: j_def nth_append)
    with assms(2) have j: "0 < j" "ys ! (j - 1) = ClipGradNorm c"
      by (simp_all add: clipped_def)
    from j(1) False have "\<not> i - 1 < length xs" "i - 1 - length xs = j - 1" "0 < i"
      by (simp_all add: j_def)
    with j(2) show ?thesis by (simp add: nth_append)
  qed
qed

lemma clipped_without_step:
  assumes "\<forall>ev \<in> set evs. ev \<noteq> OptimizerStep"
  shows "clipped c evs"
  using assms by (auto simp: clipped_def)

lemma clipped_tail: "clipped c [Backward, ClipGradNorm c, OptimizerStep]"
  by (auto simp: clipped_def nth_Cons split: nat.splits)

lemma clipped_step_calls: "clipped (grad_clip config) (step_calls config sf g)"
  by (intro clipped_append clipped_tail clipped_without_step) auto

subsection \<open>The training pass\<close>

lemma train_step_total: "\<exists>r. train_step fw config sf x y w = Inr r"
  by (simp add: train_step_def Let_def split: prod.splits)

lemma train_step_frame:
  assumes "train_step fw config sf x y w = Inr (logits, loss, w')"
  shows "trace w' = trace w @ step_calls config sf (grad_enabled w)
       \<and> grad_enabled w' = grad_enabled w \<and> files w' = files w \<and> training w' = training w"
  using assms
  by (auto simp: train_step_def emit_def Let_def split: if_splits prod.splits)

lemma train_batch_frame:
  assumes "train_batch fw config epoch sf len b (ms, w) = Inr (ms', w')"
  shows "\<exists>lg. trace w' = trace w @ step_calls config sf (grad_enabled w) @ lg
           \<and> (\<forall>ev \<in> set lg. is_info ev \<and> batch_level ev)
           \<and> grad_enabled w' = grad_enabled w \<and> files w' = files w \<and> training w' = training w"
proof -
  obtain step x y where b: "b = (step, x, y)" by (cases b) auto
  from assms obtain logits loss w1 due where
    st: "train_step fw config sf x y w = Inr (logits, loss, w1)" and
    w': "w' = (if due then emit (Info (TrainStep (epoch + 1) (retrain_epochs config) step (int len - 1)
                   (m_avg (snd (snd ms'))) (m_avg (fst ms')) (m_avg (fst (snd ms'))))) w1 else w1)"
    by (auto simp: b train_batch_def Let_def split: sum.splits prod.splits)
  define lg where "lg = (if due then [Info (TrainStep (epoch + 1) (retrain_epochs config) step (int len - 1)
                   (m_avg (snd (snd ms'))) (m_avg (fst ms')) (m_avg (fst (snd ms'))))] else [])"
  note fr = train_step_frame [OF st]
  have "trace w' = trace w @ step_calls config sf (grad_enabled w) @ lg"
    using w' fr by (simp add: emit_def lg_def)
  moreover have "\<forall>ev \<in> set lg. is_info ev \<and> batch_level ev"
    by (simp add: lg_def)
  moreover have "grad_enabled w' = grad_enabled w \<and> files w' = files w \<and> training w' = training w"
    using w' fr by (simp add: emit_def)
  ultimately show ?thesis by blast
qed

lemma train_loop_frame:
  assumes "train_loop fw config epoch sf len bs (ms, w) = Inr (ms', w')"
  shows "\<exists>body. trace w' = trace w @ body
           \<and> filter (\<lambda>ev. \<not> is_info ev) body = concat (map (\<lambda>b. step_calls config sf (grad_enabled w)) bs)
           \<and> (\<forall>ev \<in> set body. batch_level ev)
           \<and> clipped (grad_clip config) body
           \<and> grad_enabled w' = grad_enabled w \<and> files w' = files w \<and> training w' = training w"
  using assms
proof (induction bs arbitrary: ms w)
  case Nil
  then have "trace w' = trace w @ []" and "w' = w" by simp_all
  then show ?case by (intro exI [of _ "[]"]) (simp add: clipped_def)
next
  case (Cons b bs)
  from Cons.prems obtain ms1 w1 where
    one: "train_batch fw config epoch sf len b (ms, w) = Inr (ms1, w1)" and
    rest: "train_loop fw config epoch sf len bs (ms1, w1) = Inr (ms', w')"
    by (auto split: sum.splits)
  from train_batch_frame [OF one] obtain lg where
    lg: "trace w1 = trace w @ step_calls config sf (grad_enabled w) @ lg"
        "\<forall>ev \<in> set lg. is_info ev \<and> batch_level ev" and
    same1: "grad_enabled w1 = grad_enabled w" "files w1 = files w" "training w1 = training w"
    by blast
  from Cons.IH [OF rest] obtain body where
    body: "trace w' = trace w1 @ body"
          "filter (\<lambda>ev. \<not> is_info ev) body = concat (map (\<lambda>b. step_calls config sf (grad_enabled w1)) bs)"
          "\<forall>ev \<in> set body. batch_level ev"
          "clipped (grad_clip config) body" and
    same2: "grad_enabled w' = grad_enabled w1" "files w' = files w1" "training w' = training w1"
    by blast
  let ?all = "step_calls config sf (grad_enabled w) @ lg @ body"
  have "trace w' = trace w @ ?all"
    using lg(1) body(1) by simp
  moreover have "filter (\<lambda>ev. \<not> is_info ev) ?all
       = concat (map (\<lambda>b. step_calls config sf (grad_enabled w)) (b # bs))"
    using lg(2) body(2) same1(1) by simp
  moreover have "\<forall>ev \<in> set ?all. batch_level ev"
    using lg(2) body(3) by auto
  moreover have "clipped (grad_clip config) ?all"
  proof -
    have "clipped (grad_clip config) lg"
      using lg(2) by (intro clipped_without_step) auto
    then have "clipped (grad_clip config) (lg @ body)"
      using body(4) by (rule clipped_append)
    with clipped_step_calls show ?thesis
      by (rule clipped_append)
  qed
  moreover have "grad_enabled w' = grad_enabled w \<and> files w' = files w \<and> training w' = training w"
    using same1 same2 by simp
  ultimately show ?case by blast
qed

lemma map_enumerate_const: "map (\<lambda>b. c) (enumerate n xs) = map (\<lambda>b. c) xs"
  by (induction xs arbitrary: n) simp_all

lemma train_frame:
  assumes "train fw config train_loader epoch sf w = Inr w'"
  shows "\<exists>body a. trace w' = trace w @ [Info (EpochLR epoch (lr fw (opt w))), ModelTrain] @ body
                      @ [Info (TrainFinal (epoch + 1) (retrain_epochs config) a)]
           \<and> filter (\<lambda>ev. \<not> is_info ev) body
               = concat (map (\<lambda>b. step_calls config sf (grad_enabled w)) train_loader)
           \<and> (\<forall>ev \<in> set body. batch_level ev)
           \<and> clipped (grad_clip config) body
           \<and> grad_enabled w' = grad_enabled w \<and> files w' = files w"
proof -
  let ?w2 = "emit ModelTrain (emit (Info (EpochLR epoch (lr fw (opt w)))) w\<lparr>training := True\<rparr>)"
  from assms obtain ms w3 where
    loop: "train_loop fw config epoch sf (length train_loader) (enumerate 0 train_loader)
             ((AverageMeter, AverageMeter, AverageMeter), ?w2) = Inr (ms, w3)" and
    w': "w' = emit (Info (TrainFinal (epoch + 1) (retrain_epochs config) (m_avg (fst ms)))) w3"
    by (auto simp: train_def Let_def split: sum.splits)
  from train_loop_frame [OF loop] obtain body where
    body: "trace w3 = trace ?w2 @ body"
          "filter (\<lambda>ev. \<not> is_info ev) body
             = concat (map (\<lambda>b. step_calls config sf (grad_enabled ?w2)) (enumerate 0 train_loader))"
          "\<forall>ev \<in> set body. batch_level ev"
          "clipped (grad_clip config) body" and
    same: "grad_enabled w3 = grad_enabled ?w2" "files w3 = files ?w2"
    by blast
  have "trace w' = trace w @ [Info (EpochLR epoch (lr fw (opt w))), ModelTrain] @ body
                      @ [Info (TrainFinal (epoch + 1) (retrain_epochs config) (m_avg (fst ms)))]"
    using w' body(1) by (simp add: emit_def)
  moreover have "filter (\<lambda>ev. \<not> is_info ev) body
               = concat (map (\<lambda>b. step_calls config sf (grad_enabled w)) train_loader)"
    using body(2) by (simp add: emit_def map_enumerate_const)
  moreover have "grad_enabled w' = grad_enabled w \<and> files w' = files w"
    using w' same by (simp add: emit_def)
  ultimately show ?thesis using body(3,4) by blast
qed

lemma train_step_effect:
  assumes "train_step fw config sf x y w = Inr (logits, loss, w')"
  shows "(params w', grads w', opt w')
           = spec_batch_update fw config sf (training w) (x, y) (params w, grads w, opt w)"
  using assms
  by (auto simp: train_step_def emit_def Let_def spec_batch_update_def split: if_splits prod.splits)

lemma train_batch_effect:
  assumes "train_batch fw config epoch sf len b (ms, w) = Inr (ms', w')"
  shows "(params w', grads w', opt w')
           = spec_batch_update fw config sf (training w) (snd b) (params w, grads w, opt w)"
proof -
  obtain step x y where b: "b = (step, x, y)" by (cases b) auto
  from assms obtain logits loss w1 due where
    st: "train_step fw config sf x y w = Inr (logits, loss, w1)" and
    w': "w' = (if due then emit (Info (TrainStep (epoch + 1) (retrain_epochs config) step (int len - 1)
                   (m_avg (snd (snd ms'))) (m_avg (fst ms')) (m_avg (fst (snd ms'))))) w1 else w1)"
    by (auto simp: b train_batch_def Let_def split: sum.splits prod.splits)
  from w' have "params w' = params w1" "grads w' = grads w1" "opt w' = opt w1"
    by (simp_all add: emit_def)
  with train_step_effect [OF st] show ?thesis
    by (simp add: b)
qed

lemma train_loop_effect:
  assumes "train_loop fw config epoch sf len bs (ms, w) = Inr (ms', w')"
  shows "(params w', grads w', opt w')
           = foldl (\<lambda>s b. spec_batch_update fw config sf (training w) (snd b) s)
               (params w, grads w, opt w) bs"
  using assms
proof (induction bs arbitrary: ms w)
  case Nil
  then show ?case by simp
next
  case (Cons b bs)
  from Cons.prems obtain ms1 w1 where
    one: "train_batch fw config epoch sf len b (ms, w) = Inr (ms1, w1)" and
    rest: "train_loop fw config epoch sf len bs (ms1, w1) = Inr (ms', w')"
    by (auto split: sum.splits)
  from train_batch_frame [OF one] have mode: "training w1 = training w"
    by blast
  from Cons.IH [OF rest] train_batch_effect [OF one] show ?case
    by (simp add: mode)
qed

lemma foldl_enumerate_snd: "foldl (\<lambda>s b. f s (snd b)) s (enumerate n xs) = foldl f s xs"
  by (induction xs arbitrary: s n) simp_all

lemma train_effect:
  assumes "train fw config train_loader epoch sf w = Inr w'"
  shows "(params w', grads w', opt w')
           = foldl (\<lambda>s b. spec_batch_update fw config sf True b s)
               (params w, grads w, opt w) train_loader"
proof -
  let ?w2 = "emit ModelTrain (emit (Info (EpochLR epoch (lr fw (opt w)))) w\<lparr>training := True\<rparr>)"
  from assms obtain ms w3 where
    loop: "train_loop fw config epoch sf (length train_loader) (enumerate 0 train_loader)
             ((AverageMeter, AverageMeter, AverageMeter), ?w2) = Inr (ms, w3)" and
    w': "w' = emit (Info (TrainFinal (epoch + 1) (retrain_epochs config) (m_avg (fst ms)))) w3"
    by (auto simp: train_def Let_def split: sum.splits)
  from train_loop_effect [OF loop] have
    "(params w3, grads w3, opt w3)
       = foldl (\<lambda>s b. spec_batch_update fw config sf True (snd b) s)
           (params w, grads w, opt w) (enumerate 0 train_loader)"
    by (simp add: emit_def)
  also have "\<dots> = foldl (\<lambda>s b. spec_batch_update fw config sf True b s)
           (params w, grads w, opt w) train_loader"
    by (rule foldl_enumerate_snd)
  finally show ?thesis
    by (simp add: w' emit_def)
qed

lemmas run_defs = retrain_def epoch_body_def train_def validate_def train_batch_def validate_batch_def
  train_step_def checkpoint_def emit_def update_meters_def meter_update_def AverageMeter_def
  log_due_def train_loader_of_def valid_loader_of_def Let_def

lemmas ex_defs = ex_fw_def ex_fw_zero_def ex_args_def ex_world_def

subsection \<open>The validation pass\<close>

lemma update_meters_top1:
  assumes "update_meters ms loss acc bs = Inr ms'"
  shows "m_sum (fst ms') = m_sum (fst ms) + fst acc * real bs
       \<and> m_count (fst ms') = m_count (fst ms) + bs
       \<and> 0 < m_count (fst ms')
       \<and> m_avg (fst ms') = m_sum (fst ms') / real (m_count (fst ms'))"
  using assms
  by (auto simp: update_meters_def meter_update_def Let_def split: prod.splits sum.splits if_splits)

lemma update_meters_total:
  assumes "0 < bs"
  shows "\<exists>ms'. update_meters ms loss acc bs = Inr ms'"
  using assms
  by (auto simp: update_meters_def meter_update_def Let_def split: prod.splits sum.splits)

lemma validate_batch_result:
  assumes "validate_batch fw config epoch len (step, X, y) (ms, w) = Inr (ms', w')"
  shows "\<exists>lg. w' = w\<lparr>trace := trace w @ [Forward False (grad_enabled w), Criterion Primary] @ lg\<rparr>
           \<and> (\<forall>ev \<in> set lg. eval_event ev)
           \<and> update_meters ms (criterion fw (forward1 fw (training w) (params w) X) y)
                (accuracy fw (forward1 fw (training w) (params w) X) y) (size0 fw X) = Inr ms'"
proof -
  let ?lg = "forward1 fw (training w) (params w) X"
  from assms obtain due where
    ms': "update_meters ms (criterion fw ?lg y) (accuracy fw ?lg y) (size0 fw X) = Inr ms'" and
    w': "w' = (if due then emit (Info (ValidStep (epoch + 1) (retrain_epochs config) step (int len - 1)
                   (m_avg (snd (snd ms'))) (m_avg (fst ms')) (m_avg (fst (snd ms')))))
                 (emit (Criterion Primary) (emit (Forward False (grad_enabled w)) w))
               else emit (Criterion Primary) (emit (Forward False (grad_enabled w)) w))"
    by (auto simp: validate_batch_def Let_def split: sum.splits)
  define lg where "lg = (if due then [Info (ValidStep (epoch + 1) (retrain_epochs config) step (int len - 1)
                   (m_avg (snd (snd ms'))) (m_avg (fst ms')) (m_avg (fst (snd ms'))))] else [])"
  have "w' = w\<lparr>trace := trace w @ [Forward False (grad_enabled w), Criterion Primary] @ lg\<rparr>"
    using w' by (simp add: emit_def lg_def)
  moreover have "\<forall>ev \<in> set lg. eval_event ev"
    by (simp add: lg_def)
  ultimately show ?thesis using ms' by blast
qed

lemma validate_batch_total:
  assumes "log_frequency config \<noteq> 0" and "0 < size0 fw X"
  shows "\<exists>r. validate_batch fw config epoch len (step, X, y) (ms, w) = Inr r"
proof -
  from update_meters_total [OF assms(2)] obtain ms' where
    "update_meters ms (criterion fw (forward1 fw (training w) (params w) X) y)
       (accuracy fw (forward1 fw (training w) (params w) X) y) (size0 fw X) = Inr ms'"
    by blast
  with assms(1) show ?thesis
    by (cases ms') (simp add: validate_batch_def Let_def log_due_def)
qed

lemma validate_loop_result:
  assumes "validate_loop fw config epoch len bs (ms, w) = Inr (ms', w')"
  shows "(\<exists>body. w' = w\<lparr>trace := trace w @ body\<rparr>
            \<and> (\<forall>ev \<in> set body. eval_event ev \<or> ev = Forward False (grad_enabled w)))
       \<and> m_sum (fst ms') = m_sum (fst ms)
            + (\<Sum>b\<leftarrow>bs. acc1 fw (training w) (params w) (snd b) * real (size0 fw (fst (snd b))))
       \<and> m_count (fst ms') = m_count (fst ms) + (\<Sum>b\<leftarrow>bs. size0 fw (fst (snd b)))
       \<and> (bs \<noteq> [] \<longrightarrow> m_avg (fst ms') = m_sum (fst ms') / real (m_count (fst ms')))"
  using assms
proof (induction bs arbitrary: ms w)
  case Nil
  then have "w' = w\<lparr>trace := trace w @ []\<rparr>" and "ms' = ms" by simp_all
  then show ?case by (intro conjI exI [of _ "[]"]) simp_all
next
  case (Cons b bs)
  obtain step X y where b: "b = (step, X, y)" by (cases b) auto
  from Cons.prems obtain ms1 w1 where
    one: "validate_batch fw config epoch len (step, X, y) (ms, w) = Inr (ms1, w1)" and
    rest: "validate_loop fw config epoch len bs (ms1, w1) = Inr (ms', w')"
    by (auto simp: b split: sum.splits)
  from validate_batch_result [OF one] obtain lg where
    w1: "w1 = w\<lparr>trace := trace w @ [Forward False (grad_enabled w), Criterion Primary] @ lg\<rparr>" and
    lg: "\<forall>ev \<in> set lg. eval_event ev" and
    up: "update_meters ms (criterion fw (forward1 fw (training w) (params w) X) y)
                (accuracy fw (forward1 fw (training w) (params w) X) y) (size0 fw X) = Inr ms1"
    by blast
  note m1 = update_meters_top1 [OF up]
  have same: "training w1 = training w" "params w1 = params w" "grad_enabled w1 = grad_enabled w"
    by (simp_all add: w1)
  note ih = Cons.IH [OF rest, unfolded same]
  from ih obtain body where
    w': "w' = w1\<lparr>trace := trace w1 @ body\<rparr>" and
    body: "\<forall>ev \<in> set body. eval_event ev \<or> ev = Forward False (grad_enabled w)"
    by blast
  have "w' = w\<lparr>trace := trace w @ ([Forward False (grad_enabled w), Criterion Primary] @ lg @ body)\<rparr>"
    by (simp add: w' w1)
  moreover have "\<forall>ev \<in> set ([Forward False (grad_enabled w), Criterion Primary] @ lg @ body).
      eval_event ev \<or> ev = Forward False (grad_enabled w)"
    using lg body by auto
  ultimately have frame: "\<exists>body. w' = w\<lparr>trace := trace w @ body\<rparr>
            \<and> (\<forall>ev \<in> set body. eval_event ev \<or> ev = Forward False (grad_enabled w))"
    by blast
  have sum: "m_sum (fst ms') = m_sum (fst ms)
            + (\<Sum>b\<leftarrow>b # bs. acc1 fw (training w) (params w) (snd b) * real (size0 fw (fst (snd b))))"
    using ih m1 by (simp add: b)
  have cnt: "m_count (fst ms') = m_count (fst ms) + (\<Sum>b\<leftarrow>b # bs. size0 fw (fst (snd b)))"
    using ih m1 by (simp add: b)
  have avg: "m_avg (fst ms') = m_sum (fst ms') / real (m_count (fst ms'))"
  proof (cases "bs = []")
    case True
    with rest have "ms' = ms1" by simp
    with m1 show ?thesis by simp
  next
    case False
    with ih show ?thesis by simp
  qed
  from frame sum cnt avg show ?case by simp
qed

lemma validate_loop_total:
  assumes "log_frequency config \<noteq> 0" and "\<forall>b \<in> set bs. 0 < size0 fw (fst (snd b))"
  shows "\<exists>r. validate_loop fw config epoch len bs st = Inr r"
  using assms(2)
proof (induction bs arbitrary: st)
  case Nil
  show ?case by simp
next
  case (Cons b bs)
  obtain step X y where b: "b = (step, X, y)" by (cases b) auto
  obtain ms w where st: "st = (ms, w)" by (cases st) auto
  from Cons.prems have "0 < size0 fw X" by (simp add: b)
  from validate_batch_total [OF assms(1) this] obtain st1 where
    "validate_batch fw config epoch len (step, X, y) (ms, w) = Inr st1" by blast
  moreover from Cons.prems have "\<forall>b \<in> set bs. 0 < size0 fw (fst (snd b))" by simp
  from Cons.IH [OF this] obtain r where
    "validate_loop fw config epoch len bs st1 = Inr r" by blast
  ultimately show ?case by (simp add: b st)
qed

lemma map_enumerate_snd: "map (\<lambda>b. f (snd b)) (enumerate n xs) = map f xs"
  by (induction xs arbitrary: n) simp_all

lemma validate_result:
  assumes "validate fw config valid_loader epoch cur_step w = Inr (top1, w')"
  shows "\<exists>body. w' = w\<lparr>training := False,
                        trace := trace w @ [ModelEval] @ body
                                   @ [Info (ValidFinal (epoch + 1) (retrain_epochs config) top1)]\<rparr>
           \<and> (\<forall>ev \<in> set body. eval_event ev)
           \<and> top1 = (if valid_loader = [] then 0
                     else (\<Sum>b\<leftarrow>valid_loader. acc1 fw False (params w) b * real (size0 fw (fst b)))
                          / real (\<Sum>b\<leftarrow>valid_loader. size0 fw (fst b)))"
proof -
  let ?w2 = "(emit ModelEval (w\<lparr>training := False\<rparr>))\<lparr>grad_enabled := False\<rparr>"
  from assms obtain ms w3 where
    loop: "validate_loop fw config epoch (length valid_loader) (enumerate 0 valid_loader)
             ((AverageMeter, AverageMeter, AverageMeter), ?w2) = Inr (ms, w3)" and
    top1: "top1 = m_avg (fst ms)" and
    w': "w' = emit (Info (ValidFinal (epoch + 1) (retrain_epochs config) (m_avg (fst ms))))
                (w3\<lparr>grad_enabled := grad_enabled w\<rparr>)"
    by (auto simp: validate_def Let_def emit_def split: sum.splits)
  note res = validate_loop_result [OF loop]
  from res obtain body where
    w3: "w3 = ?w2\<lparr>trace := trace ?w2 @ body\<rparr>" and
    body: "\<forall>ev \<in> set body. eval_event ev \<or> ev = Forward False (grad_enabled ?w2)"
    by blast
  have "w' = w\<lparr>training := False,
                trace := trace w @ [ModelEval] @ body
                           @ [Info (ValidFinal (epoch + 1) (retrain_epochs config) top1)]\<rparr>"
    by (simp add: w' w3 top1 emit_def)
  moreover have "\<forall>ev \<in> set body. eval_event ev"
    using body by (auto simp: emit_def)
  moreover have "top1 = (if valid_loader = [] then 0
                     else (\<Sum>b\<leftarrow>valid_loader. acc1 fw False (params w) b * real (size0 fw (fst b)))
                          / real (\<Sum>b\<leftarrow>valid_loader. size0 fw (fst b)))"
  proof (cases "valid_loader = []")
    case True
    with loop have "ms = (AverageMeter, AverageMeter, AverageMeter)" by simp
    with True top1 show ?thesis by (simp add: AverageMeter_def)
  next
    case False
    then have ne: "enumerate 0 valid_loader \<noteq> []" by (cases valid_loader) simp_all
    have s: "m_sum (fst ms)
        = (\<Sum>b\<leftarrow>valid_loader. acc1 fw False (params w) b * real (size0 fw (fst b)))"
      using res map_enumerate_snd [of "\<lambda>b. acc1 fw False (params w) b * real (size0 fw (fst b))" 0 valid_loader]
      by (simp add: emit_def AverageMeter_def)
    have c: "m_count (fst ms) = (\<Sum>b\<leftarrow>valid_loader. size0 fw (fst b))"
      using res map_enumerate_snd [of "\<lambda>b. size0 fw (fst b)" 0 valid_loader]
      by (simp add: emit_def AverageMeter_def)
    from res ne have "m_avg (fst ms) = m_sum (fst ms) / real (m_count (fst ms))" by blast
    with False top1 s c show ?thesis by simp
  qed
  ultimately show ?thesis by blast
qed

lemma validate_total:
  assumes "log_frequency config \<noteq> 0" and "\<forall>b \<in> set valid_loader. 0 < size0 fw (fst b)"
  shows "\<exists>r. validate fw config valid_loader epoch cur_step w = Inr r"
proof -
  have "\<forall>b \<in> set (enumerate 0 valid_loader). 0 < size0 fw (fst (snd b))"
  proof
    fix b
    assume "b \<in> set (enumerate 0 valid_loader)"
    then have "snd b \<in> snd ` set (enumerate 0 valid_loader)" by (rule imageI)
    also have "snd ` set (enumerate 0 valid_loader) = set (map snd (enumerate 0 valid_loader))"
      by (simp only: set_map)
    also have "\<dots> = set valid_loader" by (simp only: map_snd_enumerate)
    finally have "snd b \<in> set valid_loader" .
    with assms(2) show "0 < size0 fw (fst (snd b))" by blast
  qed
  from validate_loop_total [OF assms(1) this] obtain ms w3 where
    "validate_loop fw config epoch (length valid_loader) (enumerate 0 valid_loader)
       ((AverageMeter, AverageMeter, AverageMeter),
        (emit ModelEval (w\<lparr>training := False\<rparr>))\<lparr>grad_enabled := False\<rparr>) = Inr (ms, w3)"
    by (metis surj_pair)
  then show ?thesis by (simp add: validate_def Let_def)
qed

lemma validate_nonneg:
  assumes "validate fw config valid_loader epoch cur_step w = Inr (top1, w')"
      and "\<forall>l y. 0 \<le> fst (accuracy fw l y)"
  shows "0 \<le> top1"
proof -
  from validate_result [OF assms(1)] have
    "top1 = (if valid_loader = [] then 0
             else (\<Sum>b\<leftarrow>valid_loader. acc1 fw False (params w) b * real (size0 fw (fst b)))
                  / real (\<Sum>b\<leftarrow>valid_loader. size0 fw (fst b)))"
    by blast
  moreover have "0 \<le> (\<Sum>b\<leftarrow>valid_loader. acc1 fw False (params w) b * real (size0 fw (fst b)))"
    using assms(2) by (intro sum_list_nonneg) auto
  ultimately show ?thesis by simp
qed

subsection \<open>The two passes: what they compute and in which order\<close>

text \<open>
  Claim C4. For every sequence of validation batches, \<open>validate\<close> returns the epoch's
  average top-1 accuracy: the per-batch top-1 accuracies weighted by batch size, as the
  meter accumulates them in both passes (\<open>update_meters\<close>); it is the first component
  of \<open>accuracy\<close>, not the top-5 accuracy and not the loss. The run returns when the log
  frequency is not zero and no batch is empty; an empty loader gives the meter's initial
  average, zero.
\<close>

theorem validate_returns_top1_average:
  assumes "log_frequency config \<noteq> 0"
      and "\<forall>b \<in> set valid_loader. 0 < size0 fw (fst b)"
  shows "\<exists>w'. validate fw config valid_loader epoch cur_step w =
           Inr (if valid_loader = [] then 0
                else (\<Sum>b\<leftarrow>valid_loader.
                        fst (accuracy fw (forward1 fw False (params w) (fst b)) (snd b))
                          * real (size0 fw (fst b)))
                     / real (\<Sum>b\<leftarrow>valid_loader. size0 fw (fst b)),
                w')"
proof -
  from validate_total [OF assms] obtain top1 w' where
    run: "validate fw config valid_loader epoch cur_step w = Inr (top1, w')"
    by (metis surj_pair)
  from validate_result [OF run] have
    "top1 = (if valid_loader = [] then 0
             else (\<Sum>b\<leftarrow>valid_loader. acc1 fw False (params w) b * real (size0 fw (fst b)))
                  / real (\<Sum>b\<leftarrow>valid_loader. size0 fw (fst b)))"
    by blast
  with run show ?thesis by blast
qed

text \<open>Two batches, of two samples with one right and of one sample that is right: two thirds.\<close>

theorem validate_returns_top1_average_witness:
  "log_frequency ex_args \<noteq> 0
   \<and> (\<exists>w'. validate ex_fw ex_args [([1, 2], [1, 3]), ([4], [4])] 0 1 ex_world = Inr (2 / 3, w'))"
proof -
  have h1: "log_frequency ex_args \<noteq> 0"
    by (simp add: ex_args_def)
  have h2: "\<forall>b \<in> set [([1, 2], [1, 3]), ([4], [4::nat])]. 0 < size0 ex_fw (fst b)"
    by (simp add: ex_fw_def)
  from validate_returns_top1_average [OF h1 h2, of 0 1 ex_world] h1 show ?thesis
    by (simp add: ex_fw_def)
qed

text \<open>
  Claim C5. In the training pass every batch zeroes the gradients, runs the forward
  pass, computes the loss, backpropagates, clips the gradient norm at
  \<open>config.grad_clip\<close> and applies the optimizer step, in this order, and the step uses
  the clipped gradients.
  \<^item> For any one batch, lines 42 to 53 return, make exactly these calls in this order,
    and leave parameters, gradients and optimizer as \<open>spec_batch_update\<close> gives them:
    \<open>opt_step\<close> applied to \<open>clip_grad_norm\<close> of \<open>backward\<close> of \<open>zero_grad\<close>.
  \<^item> For a whole pass that ends: with the log lines left out, the trace is
    \<open>model.train()\<close> followed by these calls for each batch; in the whole trace every
    optimizer step comes right after a clipping at \<open>config.grad_clip\<close>; and the
    parameters, gradients and optimizer after the pass are those before it taken
    through \<open>spec_batch_update\<close>, in training mode, batch after batch.
\<close>

theorem train_batch_order_and_effect:
  assumes "train fw config train_loader epoch sf w = Inr w'"
  shows "(\<forall>x y ws. \<exists>logits loss ws'.
            train_step fw config sf x y ws = Inr (logits, loss, ws')
          \<and> since ws ws'
              = [ZeroGrad, Forward (sf = ''micro'') (grad_enabled ws), Criterion Primary]
                @ (if 0 < aux_weight config \<and> sf = ''micro'' then [Criterion Aux] else [])
                @ [Backward, ClipGradNorm (grad_clip config), OptimizerStep]
          \<and> (params ws', grads ws', opt ws')
              = spec_batch_update fw config sf (training ws) (x, y) (params ws, grads ws, opt ws))
       \<and> filter (\<lambda>ev. \<not> is_info ev) (since w w')
           = ModelTrain # concat (map (\<lambda>b.
               [ZeroGrad, Forward (sf = ''micro'') (grad_enabled w), Criterion Primary]
               @ (if 0 < aux_weight config \<and> sf = ''micro'' then [Criterion Aux] else [])
               @ [Backward, ClipGradNorm (grad_clip config), OptimizerStep]) train_loader)
       \<and> (\<forall>i < length (since w w'). since w w' ! i = OptimizerStep \<longrightarrow>
             0 < i \<and> since w w' ! (i - 1) = ClipGradNorm (grad_clip config))
       \<and> (params w', grads w', opt w')
           = foldl (\<lambda>s b. spec_batch_update fw config sf True b s)
               (params w, grads w, opt w) train_loader"
proof -
  have one: "\<exists>logits loss ws'.
            train_step fw config sf x y ws = Inr (logits, loss, ws')
          \<and> since ws ws' = step_calls config sf (grad_enabled ws)
          \<and> (params ws', grads ws', opt ws')
              = spec_batch_update fw config sf (training ws) (x, y) (params ws, grads ws, opt ws)"
    for x y ws
  proof -
    from train_step_total obtain logits loss ws' where
      run: "train_step fw config sf x y ws = Inr (logits, loss, ws')"
      by (metis surj_pair)
    from train_step_frame [OF run] have "since ws ws' = step_calls config sf (grad_enabled ws)"
      by (intro since_eq) simp
    with run train_step_effect [OF run] show ?thesis
      by blast
  qed
  from train_frame [OF assms] obtain body a where
    tr: "trace w' = trace w @ [Info (EpochLR epoch (lr fw (opt w))), ModelTrain] @ body
                      @ [Info (TrainFinal (epoch + 1) (retrain_epochs config) a)]" and
    calls: "filter (\<lambda>ev. \<not> is_info ev) body
               = concat (map (\<lambda>b. step_calls config sf (grad_enabled w)) train_loader)" and
    cl: "clipped (grad_clip config) body"
    by blast
  let ?pre = "[Info (EpochLR epoch (lr fw (opt w))), ModelTrain]"
  let ?post = "[Info (TrainFinal (epoch + 1) (retrain_epochs config) a)]"
  have s: "since w w' = ?pre @ body @ ?post"
    using tr by (rule since_eq)
  have "clipped (grad_clip config) ?pre" and "clipped (grad_clip config) ?post"
    by (rule clipped_without_step, simp)+
  with cl have "clipped (grad_clip config) (?pre @ body @ ?post)"
    by (intro clipped_append)
  then have "clipped (grad_clip config) (since w w')"
    by (simp only: s)
  then have guarded: "\<forall>i < length (since w w'). since w w' ! i = OptimizerStep \<longrightarrow>
             0 < i \<and> since w w' ! (i - 1) = ClipGradNorm (grad_clip config)"
    by (simp add: clipped_def)
  have order: "filter (\<lambda>ev. \<not> is_info ev) (since w w')
      = ModelTrain # concat (map (\<lambda>b. step_calls config sf (grad_enabled w)) train_loader)"
    using calls by (simp add: s)
  from one have "\<forall>x y ws. \<exists>logits loss ws'.
            train_step fw config sf x y ws = Inr (logits, loss, ws')
          \<and> since ws ws' = step_calls config sf (grad_enabled ws)
          \<and> (params ws', grads ws', opt ws')
              = spec_batch_update fw config sf (training ws) (x, y) (params ws, grads ws, opt ws)"
    by blast
  with order guarded train_effect [OF assms] show ?thesis
    by (intro conjI)
qed

text \<open>
  One batch of the micro family with a positive auxiliary weight: the gradient seven is
  clipped to five, and the step takes the parameter from zero to minus five.
\<close>

theorem train_batch_order_and_effect_witness:
  "\<exists>w'. train ex_fw ex_args [([1, 2], [1, 2])] 0 ''micro'' ex_world = Inr w'
     \<and> filter (\<lambda>ev. \<not> is_info ev) (since ex_world w')
         = [ModelTrain, ZeroGrad, Forward True True, Criterion Primary, Criterion Aux,
            Backward, ClipGradNorm 5, OptimizerStep]
     \<and> since ex_world w' ! 8 = OptimizerStep
     \<and> since ex_world w' ! 7 = ClipGradNorm 5
     \<and> params w' = - 5 \<and> grads w' = 5 \<and> opt w' = 1"
proof -
  have "\<exists>w'. train ex_fw ex_args [([1, 2], [1, 2])] 0 ''micro'' ex_world = Inr w'
          \<and> length (since ex_world w') = 11 \<and> since ex_world w' ! 8 = OptimizerStep"
    by (simp add: run_defs ex_defs since_def)
  then obtain w' where
    run: "train ex_fw ex_args [([1, 2], [1, 2])] 0 ''micro'' ex_world = Inr w'" and
    len: "length (since ex_world w') = 11" and
    st: "since ex_world w' ! 8 = OptimizerStep"
    by blast
  note ord = train_batch_order_and_effect [OF run]
  from ord have "8 < length (since ex_world w') \<longrightarrow> since ex_world w' ! 8 = OptimizerStep \<longrightarrow>
      0 < (8::nat) \<and> since ex_world w' ! (8 - 1) = ClipGradNorm (grad_clip ex_args)"
    by blast
  with len st have "since ex_world w' ! 7 = ClipGradNorm 5"
    by (simp add: ex_args_def)
  moreover from ord have "filter (\<lambda>ev. \<not> is_info ev) (since ex_world w')
         = [ModelTrain, ZeroGrad, Forward True True, Criterion Primary, Criterion Aux,
            Backward, ClipGradNorm 5, OptimizerStep]"
    by (simp add: ex_defs)
  moreover from ord have "(params w', grads w', opt w')
      = foldl (\<lambda>s b. spec_batch_update ex_fw ex_args ''micro'' True b s)
          (params ex_world, grads ex_world, opt ex_world) [([1, 2], [1, 2])]"
    by blast
  then have "params w' = - 5 \<and> grads w' = 5 \<and> opt w' = 1"
    by (simp add: spec_batch_update_def ex_defs Let_def)
  ultimately show ?thesis using run st by blast
qed

text \<open>
  Claim C6. For one training batch: the forward pass has the two-output form and the
  loss is the primary loss plus \<open>aux_weight\<close> times the auxiliary loss exactly when
  \<open>search_for\<close> is \<open>micro\<close> and \<open>aux_weight\<close> is positive; otherwise the loss is the
  primary loss alone and the loss function is not called on the auxiliary output; and
  outside the micro family the forward pass has the single-output form. Lines 42 to
  53 raise nothing.
\<close>

theorem train_step_forward_and_loss:
  "\<exists>logits loss w'.
     train_step fw config sf x y w = Inr (logits, loss, w')
     \<and> ((Forward True (grad_enabled w) \<in> set (since w w')
          \<and> Criterion Aux \<in> set (since w w')
          \<and> logits = fst (forward2 fw (training w) (params w) x)
          \<and> loss = criterion fw (fst (forward2 fw (training w) (params w) x)) y
                   + aux_weight config * criterion fw (snd (forward2 fw (training w) (params w) x)) y)
         \<longleftrightarrow> (sf = ''micro'' \<and> 0 < aux_weight config))
     \<and> (\<not> (sf = ''micro'' \<and> 0 < aux_weight config) \<longrightarrow>
          loss = criterion fw logits y \<and> Criterion Aux \<notin> set (since w w'))
     \<and> (sf \<noteq> ''micro'' \<longrightarrow>
          logits = forward1 fw (training w) (params w) x
          \<and> Forward False (grad_enabled w) \<in> set (since w w')
          \<and> Forward True (grad_enabled w) \<notin> set (since w w'))"
proof -
  from train_step_total obtain logits loss w' where
    run: "train_step fw config sf x y w = Inr (logits, loss, w')"
    by (metis surj_pair)
  from train_step_frame [OF run] have
    s: "since w w' = step_calls config sf (grad_enabled w)"
    by (intro since_eq) simp
  have micro: "sf = ''micro'' \<Longrightarrow> logits = fst (forward2 fw (training w) (params w) x)"
    using run by (auto simp: train_step_def emit_def Let_def split: if_splits prod.splits)
  have macro: "sf \<noteq> ''micro'' \<Longrightarrow> logits = forward1 fw (training w) (params w) x"
    using run by (auto simp: train_step_def emit_def Let_def split: if_splits prod.splits)
  have with_aux: "sf = ''micro'' \<and> 0 < aux_weight config \<Longrightarrow>
      loss = criterion fw (fst (forward2 fw (training w) (params w) x)) y
             + aux_weight config * criterion fw (snd (forward2 fw (training w) (params w) x)) y"
    using run by (auto simp: train_step_def emit_def Let_def split: if_splits prod.splits)
  have without: "\<not> (sf = ''micro'' \<and> 0 < aux_weight config) \<Longrightarrow> loss = criterion fw logits y"
    using run by (auto simp: train_step_def emit_def Let_def split: if_splits prod.splits)
  from micro macro with_aux without have
    "((Forward True (grad_enabled w) \<in> set (since w w')
          \<and> Criterion Aux \<in> set (since w w')
          \<and> logits = fst (forward2 fw (training w) (params w) x)
          \<and> loss = criterion fw (fst (forward2 fw (training w) (params w) x)) y
                   + aux_weight config * criterion fw (snd (forward2 fw (training w) (params w) x)) y)
         \<longleftrightarrow> (sf = ''micro'' \<and> 0 < aux_weight config))
     \<and> (\<not> (sf = ''micro'' \<and> 0 < aux_weight config) \<longrightarrow>
          loss = criterion fw logits y \<and> Criterion Aux \<notin> set (since w w'))
     \<and> (sf \<noteq> ''micro'' \<longrightarrow>
          logits = forward1 fw (training w) (params w) x
          \<and> Forward False (grad_enabled w) \<in> set (since w w')
          \<and> Forward True (grad_enabled w) \<notin> set (since w w'))"
    unfolding s by auto
  with run show ?thesis by blast
qed

text \<open>The micro family with weight two fifths, and the macro family.\<close>

theorem train_step_forward_and_loss_witness:
  "(\<exists>logits loss w'.
      train_step ex_fw ex_args ''micro'' [1, 2] [1, 3] ex_world = Inr (logits, loss, w')
      \<and> Forward True True \<in> set (since ex_world w') \<and> Criterion Aux \<in> set (since ex_world w')
      \<and> loss = 7 / 5)
   \<and> (\<exists>logits loss w'.
      train_step ex_fw ex_args ''macro'' [1, 2] [1, 3] ex_world = Inr (logits, loss, w')
      \<and> Forward False True \<in> set (since ex_world w') \<and> Criterion Aux \<notin> set (since ex_world w')
      \<and> logits = [1, 2] \<and> loss = 1)"
proof -
  have micro: "''micro'' = ''micro'' \<and> 0 < aux_weight ex_args"
    by (simp add: ex_args_def)
  from train_step_forward_and_loss [of ex_fw ex_args "''micro''" "[1, 2]" "[1, 3]" ex_world] micro
  obtain logits loss w' where
    run: "train_step ex_fw ex_args ''micro'' [1, 2] [1, 3] ex_world = Inr (logits, loss, w')" and
    ev: "Forward True (grad_enabled ex_world) \<in> set (since ex_world w')"
        "Criterion Aux \<in> set (since ex_world w')" and
    loss: "loss = criterion ex_fw (fst (forward2 ex_fw (training ex_world) (params ex_world) [1, 2])) [1, 3]
             + aux_weight ex_args
               * criterion ex_fw (snd (forward2 ex_fw (training ex_world) (params ex_world) [1, 2])) [1, 3]"
    by blast
  from ev(1) have "Forward True True \<in> set (since ex_world w')"
    by (simp add: ex_world_def)
  moreover from loss have "loss = 7 / 5"
    by (simp add: ex_defs)
  ultimately have first: "\<exists>logits loss w'.
      train_step ex_fw ex_args ''micro'' [1, 2] [1, 3] ex_world = Inr (logits, loss, w')
      \<and> Forward True True \<in> set (since ex_world w') \<and> Criterion Aux \<in> set (since ex_world w')
      \<and> loss = 7 / 5"
    using run ev(2) by blast
  have macro: "''macro'' \<noteq> ''micro''" "\<not> (''macro'' = ''micro'' \<and> 0 < aux_weight ex_args)"
    by simp_all
  from train_step_forward_and_loss [of ex_fw ex_args "''macro''" "[1, 2]" "[1, 3]" ex_world] macro
  obtain logits2 loss2 w2 where
    run2: "train_step ex_fw ex_args ''macro'' [1, 2] [1, 3] ex_world = Inr (logits2, loss2, w2)" and
    ev2: "Forward False (grad_enabled ex_world) \<in> set (since ex_world w2)"
         "Criterion Aux \<notin> set (since ex_world w2)" and
    val2: "logits2 = forward1 ex_fw (training ex_world) (params ex_world) [1, 2]"
          "loss2 = criterion ex_fw logits2 [1, 3]"
    by blast
  from ev2(1) have "Forward False True \<in> set (since ex_world w2)"
    by (simp add: ex_world_def)
  moreover from val2 have "logits2 = [1, 2]" "loss2 = 1"
    by (simp_all add: ex_defs)
  ultimately have "\<exists>logits loss w'.
      train_step ex_fw ex_args ''macro'' [1, 2] [1, 3] ex_world = Inr (logits, loss, w')
      \<and> Forward False True \<in> set (since ex_world w') \<and> Criterion Aux \<notin> set (since ex_world w')
      \<and> logits = [1, 2] \<and> loss = 1"
    using run2 ev2(2) by blast
  with first show ?thesis by blast
qed

text \<open>
  Claim C7. The validation pass leaves the parameters as they were: the world after
  \<open>validate\<close> is the world before with the model in evaluation mode and a longer
  trace, so parameters, gradients, optimizer and files are unchanged. What it adds to
  the trace is \<open>model.eval()\<close>, single-output forward passes with gradient tracking
  off, calls of the loss function, and log lines: no backward pass, no optimizer step.
\<close>

theorem validate_changes_no_parameters:
  assumes "validate fw config valid_loader epoch cur_step w = Inr (top1, w')"
  shows "params w' = params w
       \<and> w' = w\<lparr>training := False, trace := trace w @ since w w'\<rparr>
       \<and> (\<forall>ev \<in> set (since w w').
             ev = ModelEval \<or> ev = Forward False False \<or> ev = Criterion Primary \<or> is_info ev)"
proof -
  from validate_result [OF assms] obtain body where
    w': "w' = w\<lparr>training := False,
                 trace := trace w @ [ModelEval] @ body
                            @ [Info (ValidFinal (epoch + 1) (retrain_epochs config) top1)]\<rparr>" and
    body: "\<forall>ev \<in> set body. eval_event ev"
    by blast
  let ?added = "[ModelEval] @ body @ [Info (ValidFinal (epoch + 1) (retrain_epochs config) top1)]"
  have s: "since w w' = ?added"
    by (rule since_eq) (simp add: w')
  have "ev = Forward False False \<or> ev = Criterion Primary \<or> is_info ev" if "eval_event ev" for ev
    using that by (cases ev rule: eval_event.cases) auto
  with body have "\<forall>ev \<in> set ?added.
      ev = ModelEval \<or> ev = Forward False False \<or> ev = Criterion Primary \<or> is_info ev"
    by auto
  moreover have "w' = w\<lparr>training := False, trace := trace w @ ?added\<rparr>"
    by (simp add: w')
  moreover have "params w' = params w"
    by (simp add: w')
  ultimately show ?thesis
    unfolding s by (intro conjI)
qed

text \<open>One validation batch from the example world.\<close>

theorem validate_changes_no_parameters_witness:
  "\<exists>w'. validate ex_fw ex_args [([1, 2], [1, 3])] 0 1 ex_world = Inr (1 / 2, w')
     \<and> params w' = 0 \<and> grads w' = 0 \<and> opt w' = 0 \<and> files w' ''weights.pt'' = None"
proof -
  have "\<exists>w'. validate ex_fw ex_args [([1, 2], [1, 3])] 0 1 ex_world = Inr (1 / 2, w')"
    by (simp add: run_defs ex_defs)
  then obtain w' where
    run: "validate ex_fw ex_args [([1, 2], [1, 3])] 0 1 ex_world = Inr (1 / 2, w')"
    by blast
  from validate_changes_no_parameters [OF run] have
    eq: "w' = ex_world\<lparr>training := False, trace := trace ex_world @ since ex_world w'\<rparr>"
    by blast
  have "params w' = 0"
    by (subst eq) (simp add: ex_world_def)
  moreover have "grads w' = 0"
    by (subst eq) (simp add: ex_world_def)
  moreover have "opt w' = 0"
    by (subst eq) (simp add: ex_world_def)
  moreover have "files w' ''weights.pt'' = None"
    by (subst eq) (simp add: ex_world_def)
  ultimately show ?thesis using run by blast
qed

subsection \<open>The driver\<close>

lemma since_trans:
  assumes "trace w1 = trace w @ since w w1" and "trace w2 = trace w1 @ since w1 w2"
  shows "since w w2 = since w w1 @ since w1 w2" and "trace w2 = trace w @ since w w2"
proof -
  from assms have "trace w2 = trace w @ (since w w1 @ since w1 w2)" by simp
  then show "since w w2 = since w w1 @ since w1 w2" by (rule since_eq)
  with assms show "trace w2 = trace w @ since w w2" by simp
qed

lemma Max_insert_max:
  assumes "finite S"
  shows "Max (insert (max b t) S) = Max (insert b (insert t S))"
  using assms by (cases "S = {}") (simp_all add: max.assoc)

lemma epoch_body_summary:
  assumes "epoch_body fw a train_loader valid_loader e (best, w) = Inr (best', w')"
  shows "\<exists>w1 top1 w2.
           train fw a (batches fw train_loader e) e (search_for a) w = Inr w1
         \<and> validate fw a (batches fw valid_loader e) e
              ((e + 1) * length (batches fw train_loader e)) w1 = Inr (top1, w2)
         \<and> best' = max best top1
         \<and> trace w' = trace w @ since w w'
         \<and> valid_accs (since w w') = [top1]
         \<and> saves (since w w') = (if best \<le> top1 then [result_file a] else [])
         \<and> phases (since w w') = epoch_phases e (best \<le> top1)
         \<and> (best \<le> top1 \<longrightarrow> files w' (result_file a) = Some (params w'))
         \<and> (\<not> best \<le> top1 \<longrightarrow> files w' = files w)"
proof -
  from assms obtain w1 top1 w2 w3 where
    tr: "train fw a (batches fw train_loader e) e (search_for a) w = Inr w1" and
    va: "validate fw a (batches fw valid_loader e) e
           ((e + 1) * length (batches fw train_loader e)) w1 = Inr (top1, w2)" and
    ck: "checkpoint a best top1 w2 = (best', w3)" and
    w': "w' = emit SchedulerStep (w3\<lparr>opt := sched_step fw (opt w3)\<rparr>)"
    by (auto simp: epoch_body_def Let_def split: sum.splits prod.splits)
  from train_frame [OF tr] obtain tbody acc where
    t1: "trace w1 = trace w @ [Info (EpochLR e (lr fw (opt w))), ModelTrain] @ tbody
                      @ [Info (TrainFinal (e + 1) (retrain_epochs a) acc)]" and
    tb: "\<forall>ev \<in> set tbody. batch_level ev" and
    f1: "files w1 = files w"
    by blast
  from validate_result [OF va] obtain vbody where
    w2: "w2 = w1\<lparr>training := False,
                  trace := trace w1 @ [ModelEval] @ vbody
                             @ [Info (ValidFinal (e + 1) (retrain_epochs a) top1)]\<rparr>" and
    vb: "\<forall>ev \<in> set vbody. eval_event ev"
    by blast
  have tie: "top1 = max best top1 \<longleftrightarrow> best \<le> top1"
    by auto
  from ck have best': "best' = max best top1"
    by (simp add: checkpoint_def Let_def)
  from ck have w3: "w3 = (if best \<le> top1
      then emit (Save (result_file a)) (w2\<lparr>files := (files w2)(result_file a \<mapsto> params w2)\<rparr>)
      else w2)"
    by (simp add: checkpoint_def Let_def tie)
  let ?added = "[Info (EpochLR e (lr fw (opt w))), ModelTrain] @ tbody
      @ [Info (TrainFinal (e + 1) (retrain_epochs a) acc)]
      @ [ModelEval] @ vbody @ [Info (ValidFinal (e + 1) (retrain_epochs a) top1)]
      @ (if best \<le> top1 then [Save (result_file a)] else []) @ [SchedulerStep]"
  have tw: "trace w' = trace w @ ?added"
    by (simp add: w' w3 w2 t1 emit_def)
  then have s: "since w w' = ?added"
    by (rule since_eq)
  have silent_t: "saves tbody = [] \<and> valid_accs tbody = [] \<and> phases tbody = []"
    using tb by (rule batch_level_list_silent)
  have "\<forall>ev \<in> set vbody. batch_level ev"
    using vb by (auto intro: eval_event_batch_level)
  then have silent_v: "saves vbody = [] \<and> valid_accs vbody = [] \<and> phases vbody = []"
    by (rule batch_level_list_silent)
  have "trace w' = trace w @ since w w'"
    by (simp only: s tw)
  moreover have "valid_accs (since w w') = [top1]"
    by (simp add: s silent_t silent_v)
  moreover have "saves (since w w') = (if best \<le> top1 then [result_file a] else [])"
    by (simp add: s silent_t silent_v)
  moreover have "phases (since w w') = epoch_phases e (best \<le> top1)"
    by (simp add: s silent_t silent_v)
  moreover have "best \<le> top1 \<longrightarrow> files w' (result_file a) = Some (params w')"
    by (simp add: w' w3 emit_def)
  moreover have "\<not> best \<le> top1 \<longrightarrow> files w' = files w"
    by (simp add: w' w3 w2 f1 emit_def)
  ultimately show ?thesis using tr va best' by blast
qed

lemma epochs_append:
  "epochs fw a train_loader valid_loader (xs @ ys) st =
     (case epochs fw a train_loader valid_loader xs st of
        Inl e \<Rightarrow> Inl e
      | Inr st' \<Rightarrow> epochs fw a train_loader valid_loader ys st')"
  by (induction xs arbitrary: st) (simp_all split: sum.splits)

lemma epochs_summary:
  assumes "epochs fw a train_loader valid_loader es (best, w) = Inr (best', w')"
  shows "trace w' = trace w @ since w w'
       \<and> best' = Max (insert best (set (valid_accs (since w w'))))
       \<and> length (valid_accs (since w w')) = length es
       \<and> (\<exists>cs. length cs = length es
              \<and> phases (since w w') = concat (map2 epoch_phases es cs))"
  using assms
proof (induction es arbitrary: best w)
  case Nil
  then have "w' = w" "best' = best" by simp_all
  then show ?case by (simp add: since_def)
next
  case (Cons e es)
  from Cons.prems obtain b1 w1 where
    one: "epoch_body fw a train_loader valid_loader e (best, w) = Inr (b1, w1)" and
    rest: "epochs fw a train_loader valid_loader es (b1, w1) = Inr (best', w')"
    by (auto split: sum.splits)
  from epoch_body_summary [OF one] obtain top1 where
    b1: "b1 = max best top1" and
    t1: "trace w1 = trace w @ since w w1" and
    a1: "valid_accs (since w w1) = [top1]" and
    p1: "phases (since w w1) = epoch_phases e (best \<le> top1)"
    by blast
  from Cons.IH [OF rest] obtain cs where
    t2: "trace w' = trace w1 @ since w1 w'" and
    b2: "best' = Max (insert b1 (set (valid_accs (since w1 w'))))" and
    l2: "length (valid_accs (since w1 w')) = length es" and
    cs: "length cs = length es" "phases (since w1 w') = concat (map2 epoch_phases es cs)"
    by blast
  note tt = since_trans [OF t1 t2]
  have "best' = Max (insert best (set (valid_accs (since w w'))))"
    by (simp add: tt(1) a1 b2 b1 Max_insert_max)
  moreover have "length (valid_accs (since w w')) = length (e # es)"
    by (simp add: tt(1) a1 l2)
  moreover have "length ((best \<le> top1) # cs) = length (e # es)
      \<and> phases (since w w') = concat (map2 epoch_phases (e # es) ((best \<le> top1) # cs))"
    by (simp add: tt(1) p1 cs)
  ultimately show ?case using tt(2) by blast
qed

subsection \<open>The epoch loop: best accuracy and checkpoints\<close>

text \<open>
  Claim C1. Take the loop at the start of epoch \<open>e\<close>, after \<open>e\<close> epochs run from a best
  accuracy of zero, and let the epoch's body run. With \<open>top1\<close> the value that
  \<open>validate\<close> returns in this epoch, the body writes \<open>result_file\<close> once if \<open>top1\<close> is at
  least the greatest of zero and the accuracies of the \<open>e\<close> epochs before, and does not
  write it otherwise; what it writes is the model's parameters.
\<close>

theorem checkpoint_iff_at_least_previous_best:
  assumes "epochs fw a train_loader valid_loader [0..<e] (0, w0) = Inr (best, w)"
      and "epoch_body fw a train_loader valid_loader e (best, w) = Inr (best', w')"
  shows "\<exists>w1 top1 w2.
           train fw a (batches fw train_loader e) e (search_for a) w = Inr w1
         \<and> validate fw a (batches fw valid_loader e) e
              ((e + 1) * length (batches fw train_loader e)) w1 = Inr (top1, w2)
         \<and> length (valid_accs (since w0 w)) = e
         \<and> valid_accs (since w w') = [top1]
         \<and> saves (since w w')
             = (if Max (insert 0 (set (valid_accs (since w0 w)))) \<le> top1 then [result_file a] else [])
         \<and> (Max (insert 0 (set (valid_accs (since w0 w)))) \<le> top1 \<longrightarrow>
               files w' (result_file a) = Some (params w'))"
proof -
  from epochs_summary [OF assms(1)] have
    best: "best = Max (insert 0 (set (valid_accs (since w0 w))))" and
    len: "length (valid_accs (since w0 w)) = e"
    by simp_all
  from epoch_body_summary [OF assms(2)] show ?thesis
    unfolding best [symmetric] using len by blast
qed

text \<open>The second epoch of the small run: one half again, and a write.\<close>

theorem checkpoint_iff_at_least_previous_best_witness:
  "\<exists>w w'. epochs ex_fw ex_args (train_loader_of ex_args) (valid_loader_of ex_args) [0..<1] (0, ex_world)
             = Inr (1 / 2, w)
     \<and> epoch_body ex_fw ex_args (train_loader_of ex_args) (valid_loader_of ex_args) 1 (1 / 2, w)
             = Inr (1 / 2, w')
     \<and> valid_accs (since ex_world w) = [1 / 2]
     \<and> valid_accs (since w w') = [1 / 2]
     \<and> saves (since w w') = [''weights.pt'']"
proof -
  have "\<exists>w. epochs ex_fw ex_args (train_loader_of ex_args) (valid_loader_of ex_args) [0..<1] (0, ex_world)
             = Inr (1 / 2, w) \<and> valid_accs (since ex_world w) = [1 / 2]"
    by (simp add: run_defs ex_defs since_def)
  then obtain w where
    r0: "epochs ex_fw ex_args (train_loader_of ex_args) (valid_loader_of ex_args) [0..<1] (0, ex_world)
             = Inr (1 / 2, w)" and
    a0: "valid_accs (since ex_world w) = [1 / 2]"
    by blast
  have "\<exists>r. epochs ex_fw ex_args (train_loader_of ex_args) (valid_loader_of ex_args) [0..<2] (0, ex_world)
             = Inr (1 / 2, r)"
    by (simp add: run_defs ex_defs upt_rec)
  then obtain w' where
    r1: "epoch_body ex_fw ex_args (train_loader_of ex_args) (valid_loader_of ex_args) 1 (1 / 2, w)
             = Inr (1 / 2, w')"
    using r0 epochs_append [of ex_fw ex_args "train_loader_of ex_args" "valid_loader_of ex_args"
        "[0..<1]" "[1]" "(0, ex_world)"]
    by (auto simp: upt_rec split: sum.splits)
  from checkpoint_iff_at_least_previous_best [OF r0 r1] obtain top1 where
    "valid_accs (since w w') = [top1]"
    "saves (since w w')
       = (if Max (insert 0 (set (valid_accs (since ex_world w)))) \<le> top1 then [result_file ex_args] else [])"
    "\<exists>w1 w2. validate ex_fw ex_args (batches ex_fw (valid_loader_of ex_args) 1) 1
              ((1 + 1) * length (batches ex_fw (train_loader_of ex_args) 1)) w1 = Inr (top1, w2)"
    by blast
  moreover from this(3) have "top1 = 1 / 2"
    by (auto simp: run_defs ex_defs)
  ultimately have "valid_accs (since w w') = [1 / 2]" "saves (since w w') = [''weights.pt'']"
    by (simp_all add: a0 ex_args_def)
  with r0 r1 a0 show ?thesis by blast
qed

text \<open>
  Claim C2 says that an epoch whose accuracy only ties the best writes nothing. In the
  small run both epochs validate at one half: the second ties the best, and the file
  is written in both.
\<close>

theorem tie_writes_checkpoint_counterexample:
  "outcome ex_world (retrain ex_fw ex_args ex_world)
     = Inr (1 / 2, [1 / 2, 1 / 2], [''weights.pt'', ''weights.pt''])"
  by (simp add: outcome_def run_defs ex_defs since_def upt_rec)

text \<open>
  Claim C2, amended. In an epoch whose validation accuracy is \<open>top1\<close>, the best accuracy
  becomes the greater of its old value and \<open>top1\<close>, so it changes only when \<open>top1\<close>
  strictly exceeds it; the parameter file is overwritten exactly when \<open>top1\<close> exceeds
  or ties the best, and left alone exactly when \<open>top1\<close> is below it.
\<close>

theorem best_changes_on_gain_checkpoint_on_tie_or_gain:
  assumes "epoch_body fw a train_loader valid_loader e (best, w) = Inr (best', w')"
  shows "\<exists>top1. valid_accs (since w w') = [top1]
         \<and> best' = max best top1
         \<and> (best' \<noteq> best \<longrightarrow> best < top1)
         \<and> (saves (since w w') = [result_file a] \<longleftrightarrow> best \<le> top1)
         \<and> (saves (since w w') = [] \<longleftrightarrow> top1 < best)
         \<and> (best \<le> top1 \<longrightarrow> files w' (result_file a) = Some (params w'))
         \<and> (top1 < best \<longrightarrow> files w' = files w)"
proof -
  from epoch_body_summary [OF assms] obtain top1 where
    f: "valid_accs (since w w') = [top1]" "best' = max best top1"
       "saves (since w w') = (if best \<le> top1 then [result_file a] else [])"
       "best \<le> top1 \<longrightarrow> files w' (result_file a) = Some (params w')"
       "\<not> best \<le> top1 \<longrightarrow> files w' = files w"
    by blast
  have "best' \<noteq> best \<longrightarrow> best < top1"
    using f(2) by auto
  moreover have "saves (since w w') = [result_file a] \<longleftrightarrow> best \<le> top1"
    using f(3) by auto
  moreover have "saves (since w w') = [] \<longleftrightarrow> top1 < best"
    using f(3) by auto
  moreover have "top1 < best \<longrightarrow> files w' = files w"
    using f(5) by auto
  ultimately show ?thesis using f(1,2,4) by blast
qed

text \<open>An epoch entered with a best of one half that validates at one half.\<close>

theorem best_changes_on_gain_checkpoint_on_tie_or_gain_witness:
  "\<exists>w'. epoch_body ex_fw ex_args (train_loader_of ex_args) (valid_loader_of ex_args) 0 (1 / 2, ex_world)
           = Inr (1 / 2, w')
     \<and> valid_accs (since ex_world w') = [1 / 2]
     \<and> saves (since ex_world w') = [''weights.pt'']
     \<and> files w' ''weights.pt'' = Some (params w')"
proof -
  have "\<exists>w'. epoch_body ex_fw ex_args (train_loader_of ex_args) (valid_loader_of ex_args) 0 (1 / 2, ex_world)
           = Inr (1 / 2, w') \<and> valid_accs (since ex_world w') = [1 / 2]"
    by (simp add: run_defs ex_defs since_def)
  then obtain w' where
    run: "epoch_body ex_fw ex_args (train_loader_of ex_args) (valid_loader_of ex_args) 0 (1 / 2, ex_world)
           = Inr (1 / 2, w')" and
    acc: "valid_accs (since ex_world w') = [1 / 2]"
    by blast
  from best_changes_on_gain_checkpoint_on_tie_or_gain [OF run] acc have
    "saves (since ex_world w') = [result_file ex_args] \<longleftrightarrow> (1 / 2 :: real) \<le> 1 / 2"
    "(1 / 2 :: real) \<le> 1 / 2 \<longrightarrow> files w' (result_file ex_args) = Some (params w')"
    by auto
  then have "saves (since ex_world w') = [''weights.pt'']" "files w' ''weights.pt'' = Some (params w')"
    by (simp_all add: ex_args_def)
  with run acc show ?thesis by blast
qed

text \<open>
  Claim C3. The best accuracy never decreases: its value after epoch \<open>e\<close> is at least
  its value after the epoch before, which is at least the initial value.
\<close>

theorem best_top1_nondecreasing:
  assumes "epochs fw a train_loader valid_loader [0..<e] (b0, w0) = Inr (best, w)"
      and "epochs fw a train_loader valid_loader [0..<Suc e] (b0, w0) = Inr (best', w')"
  shows "b0 \<le> best \<and> best \<le> best'"
proof -
  from assms have "epoch_body fw a train_loader valid_loader e (best, w) = Inr (best', w')"
    by (simp add: epochs_append split: sum.splits)
  from epoch_body_summary [OF this] have "best \<le> best'"
    by auto
  moreover from epochs_summary [OF assms(1)] have "b0 \<le> best"
    by simp
  ultimately show ?thesis by simp
qed

text \<open>The small run after one and after two epochs.\<close>

theorem best_top1_nondecreasing_witness:
  "\<exists>w w'. epochs ex_fw ex_args (train_loader_of ex_args) (valid_loader_of ex_args) [0..<1] (0, ex_world)
             = Inr (1 / 2, w)
     \<and> epochs ex_fw ex_args (train_loader_of ex_args) (valid_loader_of ex_args) [0..<Suc 1] (0, ex_world)
             = Inr (1 / 2, w')
     \<and> (0 :: real) \<le> 1 / 2 \<and> (1 / 2 :: real) \<le> 1 / 2"
proof -
  have "\<exists>w. epochs ex_fw ex_args (train_loader_of ex_args) (valid_loader_of ex_args) [0..<1] (0, ex_world)
             = Inr (1 / 2, w)"
    by (simp add: run_defs ex_defs)
  then obtain w where
    r0: "epochs ex_fw ex_args (train_loader_of ex_args) (valid_loader_of ex_args) [0..<1] (0, ex_world)
             = Inr (1 / 2, w)"
    by blast
  have "\<exists>w'. epochs ex_fw ex_args (train_loader_of ex_args) (valid_loader_of ex_args) [0..<Suc 1] (0, ex_world)
             = Inr (1 / 2, w')"
    by (simp add: run_defs ex_defs upt_rec)
  then obtain w' where
    r1: "epochs ex_fw ex_args (train_loader_of ex_args) (valid_loader_of ex_args) [0..<Suc 1] (0, ex_world)
             = Inr (1 / 2, w')"
    by blast
  from best_top1_nondecreasing [OF r0 r1] r0 r1 show ?thesis by blast
qed

text \<open>
  Claim C8. A run that ends shows, for the epochs \<open>0\<close> to \<open>retrain_epochs - 1\<close> in
  this order, one training pass from its first to its last line, then one validation
  pass from \<open>model.eval()\<close> to its last line, then at most one write of the model,
  then one step of the schedule, and nothing else at the driver's level: so no step
  of the schedule comes before the training and the validation of its epoch.
\<close>

theorem epochs_in_order:
  assumes "retrain fw a w0 = Inr (best, w)"
  shows "\<exists>cs. length cs = nat (retrain_epochs a)
          \<and> phases (since w0 w)
              = concat (map2 (\<lambda>e c. [TrainBegin e, TrainEnd (e + 1), ValidBegin, ValidEnd (e + 1)]
                                      @ (if c then [Checkpoint] else []) @ [ScheduleStep])
                          [0..<nat (retrain_epochs a)] cs)"
proof -
  from assms obtain w1 where
    run: "epochs fw a (train_loader_of a) (valid_loader_of a) [0..<nat (retrain_epochs a)] (0, w0)
            = Inr (best, w1)" and
    w: "w = emit (Info (FinalBest best)) w1"
    by (auto simp: retrain_def split: sum.splits)
  from epochs_summary [OF run] obtain cs where
    t: "trace w1 = trace w0 @ since w0 w1" and
    cs: "length cs = length [0..<nat (retrain_epochs a)]"
        "phases (since w0 w1) = concat (map2 epoch_phases [0..<nat (retrain_epochs a)] cs)"
    by blast
  from t w have "trace w = trace w0 @ (since w0 w1 @ [Info (FinalBest best)])"
    by (simp add: emit_def)
  then have "since w0 w = since w0 w1 @ [Info (FinalBest best)]"
    by (rule since_eq)
  with cs show ?thesis
    by (intro exI [of _ cs]) simp
qed

text \<open>The two epochs of the small run.\<close>

theorem epochs_in_order_witness:
  "\<exists>w cs. retrain ex_fw ex_args ex_world = Inr (1 / 2, w)
     \<and> length cs = 2
     \<and> phases (since ex_world w)
         = concat (map2 (\<lambda>e c. [TrainBegin e, TrainEnd (e + 1), ValidBegin, ValidEnd (e + 1)]
                                 @ (if c then [Checkpoint] else []) @ [ScheduleStep])
                     [0, 1] cs)"
proof -
  have "\<exists>w. retrain ex_fw ex_args ex_world = Inr (1 / 2, w)"
    by (simp add: run_defs ex_defs upt_rec)
  then obtain w where run: "retrain ex_fw ex_args ex_world = Inr (1 / 2, w)"
    by blast
  have "[0..<nat (retrain_epochs ex_args)] = [0, 1]" "nat (retrain_epochs ex_args) = 2"
    by (simp_all add: ex_args_def upt_rec)
  with epochs_in_order [OF run] run show ?thesis
    by auto
qed

text \<open>
  Claim C9. When top-1 accuracies are not negative, the first epoch always writes the
  parameter file, since the best accuracy starts at zero: also for a first accuracy
  of exactly zero.
\<close>

theorem first_epoch_always_checkpoints:
  assumes "\<forall>l y. 0 \<le> fst (accuracy fw l y)"
      and "0 < retrain_epochs a"
      and "retrain fw a w0 = Inr (best, w)"
  shows "\<exists>b1 w1. epoch_body fw a (train_loader_of a) (valid_loader_of a) 0 (0, w0) = Inr (b1, w1)
          \<and> saves (since w0 w1) = [result_file a]
          \<and> files w1 (result_file a) = Some (params w1)"
proof -
  from assms(2) have "[0..<nat (retrain_epochs a)] = 0 # [1..<nat (retrain_epochs a)]"
    by (simp add: upt_rec)
  with assms(3) obtain b1 w1 where
    one: "epoch_body fw a (train_loader_of a) (valid_loader_of a) 0 (0, w0) = Inr (b1, w1)"
    by (auto simp: retrain_def split: sum.splits)
  from epoch_body_summary [OF one] obtain v1 top1 v2 where
    va: "validate fw a (batches fw (valid_loader_of a) 0) 0
           ((0 + 1) * length (batches fw (train_loader_of a) 0)) v1 = Inr (top1, v2)" and
    sv: "saves (since w0 w1) = (if 0 \<le> top1 then [result_file a] else [])" and
    fl: "0 \<le> top1 \<longrightarrow> files w1 (result_file a) = Some (params w1)"
    by blast
  from validate_nonneg [OF va assms(1)] have "0 \<le> top1" .
  with sv fl one show ?thesis by auto
qed

text \<open>The run whose every validation prediction is wrong.\<close>

theorem first_epoch_always_checkpoints_witness:
  "0 < retrain_epochs ex_args
   \<and> (\<exists>w. retrain ex_fw_zero ex_args ex_world = Inr (0, w))
   \<and> (\<exists>b1 w1. epoch_body ex_fw_zero ex_args (train_loader_of ex_args) (valid_loader_of ex_args) 0
                  (0, ex_world) = Inr (b1, w1)
         \<and> saves (since ex_world w1) = [''weights.pt'']
         \<and> files w1 ''weights.pt'' = Some (params w1))"
proof -
  have h1: "\<forall>l y. 0 \<le> fst (accuracy ex_fw_zero l y)"
    by (simp add: ex_defs)
  have h2: "0 < retrain_epochs ex_args"
    by (simp add: ex_args_def)
  have "\<exists>w. retrain ex_fw_zero ex_args ex_world = Inr (0, w)"
    by (simp add: run_defs ex_defs upt_rec)
  then obtain w where h3: "retrain ex_fw_zero ex_args ex_world = Inr (0, w)"
    by blast
  have "result_file ex_args = ''weights.pt''"
    by (simp add: ex_args_def)
  with first_epoch_always_checkpoints [OF h1 h2 h3] h2 h3 show ?thesis
    by auto
qed

subsection \<open>The command line\<close>

lemma int_argument_given:
  assumes "int_argument int_of given flag d = Inr i" and "given flag = Some s"
  shows "int_of s = Some i"
  using assms by (auto simp: int_argument_def split: option.splits)

lemma float_argument_given:
  assumes "float_argument float_of given flag d = Inr r" and "given flag = Some s"
  shows "float_of s = Some r"
  using assms by (auto simp: float_argument_def split: option.splits)

lemma parse_args_fields:
  assumes "parse_args int_of float_of given positional = Inr a"
  shows "workers a = plain_argument given ''--workers'' (PyInt 4)"
    and "int_argument int_of given ''--retrain-epochs'' 600 = Inr (retrain_epochs a)"
    and "int_argument int_of given ''--batch-size'' 128 = Inr (batch_size a)"
    and "int_argument int_of given ''--log-frequency'' 10 = Inr (log_frequency a)"
    and "int_argument int_of given ''--num-layers'' 6 = Inr (num_layers a)"
    and "float_argument float_of given ''--aux-weight'' (4 / 10) = Inr (aux_weight a)"
    and "float_argument float_of given ''--grad-clip'' 5 = Inr (grad_clip a)"
  using assms
  by (auto simp: parse_args_def Let_def split: sum.splits list.splits)

lemma typed_arguments_converted:
  assumes "parse_args int_of float_of given positional = Inr a"
  shows "(\<forall>s. given ''--retrain-epochs'' = Some s \<longrightarrow> int_of s = Some (retrain_epochs a))
       \<and> (\<forall>s. given ''--batch-size'' = Some s \<longrightarrow> int_of s = Some (batch_size a))
       \<and> (\<forall>s. given ''--log-frequency'' = Some s \<longrightarrow> int_of s = Some (log_frequency a))
       \<and> (\<forall>s. given ''--num-layers'' = Some s \<longrightarrow> int_of s = Some (num_layers a))
       \<and> (\<forall>s. given ''--aux-weight'' = Some s \<longrightarrow> float_of s = Some (aux_weight a))
       \<and> (\<forall>s. given ''--grad-clip'' = Some s \<longrightarrow> float_of s = Some (grad_clip a))"
proof -
  note f = parse_args_fields [OF assms]
  have "\<forall>s. given ''--retrain-epochs'' = Some s \<longrightarrow> int_of s = Some (retrain_epochs a)"
    using int_argument_given [OF f(2)] by blast
  moreover have "\<forall>s. given ''--batch-size'' = Some s \<longrightarrow> int_of s = Some (batch_size a)"
    using int_argument_given [OF f(3)] by blast
  moreover have "\<forall>s. given ''--log-frequency'' = Some s \<longrightarrow> int_of s = Some (log_frequency a)"
    using int_argument_given [OF f(4)] by blast
  moreover have "\<forall>s. given ''--num-layers'' = Some s \<longrightarrow> int_of s = Some (num_layers a)"
    using int_argument_given [OF f(5)] by blast
  moreover have "\<forall>s. given ''--aux-weight'' = Some s \<longrightarrow> float_of s = Some (aux_weight a)"
    using float_argument_given [OF f(6)] by blast
  moreover have "\<forall>s. given ''--grad-clip'' = Some s \<longrightarrow> float_of s = Some (grad_clip a)"
    using float_argument_given [OF f(7)] by blast
  ultimately show ?thesis by blast
qed

text \<open>Absent, \<open>--workers\<close> is the integer 4 and both loaders are built with it.\<close>

lemma workers_absent:
  assumes "parse_args int_of float_of given positional = Inr a" and "given ''--workers'' = None"
  shows "workers a = PyInt 4
       \<and> DataLoader (train_loader_of a) = Inr (train_loader_of a)
       \<and> DataLoader (valid_loader_of a) = Inr (valid_loader_of a)
       \<and> num_workers (train_loader_of a) = PyInt 4
       \<and> num_workers (valid_loader_of a) = PyInt 4"
  using parse_args_fields(1) [OF assms(1)] assms(2)
  by (simp add: plain_argument_def DataLoader_def train_loader_of_def valid_loader_of_def)

text \<open>
  Given, it stays a string, the construction of the training loader raises, and the
  script ends before the validation loader and the first epoch: whatever the command
  line holds besides, no run with \<open>--workers\<close> on it returns.
\<close>

lemma workers_given:
  assumes "given ''--workers'' = Some s"
  shows "(\<forall>a. parse_args int_of float_of given positional = Inr a \<longrightarrow>
            workers a = PyStr s \<and> DataLoader (train_loader_of a) = Inl TypeError)
       \<and> (\<exists>e. main fw int_of float_of given positional = Inl e)
       \<and> (\<forall>a w. parse_args int_of float_of given positional = Inr a \<longrightarrow> build fw a = Inr w \<longrightarrow>
            main fw int_of float_of given positional = Inl TypeError)"
proof -
  have str: "workers a = PyStr s \<and> DataLoader (train_loader_of a) = Inl TypeError"
    if "parse_args int_of float_of given positional = Inr a" for a
    using parse_args_fields(1) [OF that] assms
    by (simp add: plain_argument_def DataLoader_def train_loader_of_def)
  then have "\<exists>e. main fw int_of float_of given positional = Inl e"
    by (auto simp: main_def split: sum.splits)
  moreover from str have "main fw int_of float_of given positional = Inl TypeError"
    if "parse_args int_of float_of given positional = Inr a" "build fw a = Inr w" for a w
    using that by (simp add: main_def)
  ultimately show ?thesis using str by blast
qed

text \<open>
  Claim C10. \<open>--workers\<close> is declared without a converter: a value given on the command
  line is kept as a string and handed as \<open>num_workers\<close> to the data loaders. On the
  command line \<open>--workers 8 arch.json weights.pt\<close> the namespace holds the string
  \<open>"8"\<close>, the call that builds the training loader (line 132) receives it and raises
  \<open>TypeError\<close>, and the script ends there: the validation loader (line 133) is never
  built and no epoch runs.
\<close>

theorem workers_string_ends_run_at_first_loader:
  "parse_args ex_int ex_float [''--workers'' \<mapsto> ''8''] [''arch.json'', ''weights.pt''] = Inr ex_parsed
   \<and> workers ex_parsed = PyStr ''8''
   \<and> num_workers (train_loader_of ex_parsed) = PyStr ''8''
   \<and> build ex_fw ex_parsed = Inr ex_world
   \<and> DataLoader (train_loader_of ex_parsed) = Inl TypeError
   \<and> main ex_fw ex_int ex_float [''--workers'' \<mapsto> ''8''] [''arch.json'', ''weights.pt'']
       = Inl TypeError"
proof -
  have p: "parse_args ex_int ex_float [''--workers'' \<mapsto> ''8''] [''arch.json'', ''weights.pt'']
      = Inr ex_parsed"
    by (simp add: parse_args_def int_argument_def float_argument_def choice_argument_def
        plain_argument_def ex_parsed_def)
  have b: "build ex_fw ex_parsed = Inr ex_world"
    by (simp add: ex_fw_def)
  have d: "DataLoader (train_loader_of ex_parsed) = Inl TypeError"
    by (simp add: DataLoader_def train_loader_of_def ex_parsed_def)
  have "main ex_fw ex_int ex_float [''--workers'' \<mapsto> ''8''] [''arch.json'', ''weights.pt'']
      = Inl TypeError"
    by (simp add: main_def p b d)
  moreover have "workers ex_parsed = PyStr ''8''" "num_workers (train_loader_of ex_parsed) = PyStr ''8''"
    by (simp_all add: ex_parsed_def train_loader_of_def)
  ultimately show ?thesis using p b d by simp
qed

end
